theory Spec2Isabelle
  imports Main
begin

text \<open>
  The Beatly backend: an Express application over three Mongoose models (User, Video,
  Comment) and a blob container. Each handler is a function from the state it can read
  or change (\<open>world\<close>) to the new state and the response it sends; what the libraries and
  the network decide (hashes, tokens, the outcome of an upload or of a frame extraction)
  is an argument. A handler that rejects or throws returns the response of its \<open>catch\<close>.
\<close>

section \<open>JavaScript strings and arrays\<close>

text \<open>
  A string is a list of code units. The model covers the code units below U+0100, read
  as Latin-1; \<open>String.prototype.trim\<close> and \<open>toLowerCase\<close> are written out for that
  range. \<open>length\<close> counts code units, as \<open>.length\<close> does.
\<close>

definition is_space :: "char \<Rightarrow> bool" where
  \<comment> \<open>the white space and line terminators that \<open>trim\<close> removes: TAB, LF, VT, FF, CR, SP, NBSP\<close>
  "is_space c = ((of_char c :: nat) \<in> {9, 10, 11, 12, 13, 32, 160})"

definition trim :: "string \<Rightarrow> string" where
  "trim s = rev (dropWhile is_space (rev (dropWhile is_space s)))"

definition lower_char :: "char \<Rightarrow> char" where
  \<comment> \<open>A-Z and the Latin-1 capitals (U+00C0 to U+00DE without the multiplication sign)\<close>
  "lower_char c =
     (let n = (of_char c :: nat)
      in if (65 \<le> n \<and> n \<le> 90) \<or> (192 \<le> n \<and> n \<le> 222 \<and> n \<noteq> 215)
         then char_of (n + 32) else c)"

definition toLowerCase :: "string \<Rightarrow> string" where
  "toLowerCase s = map lower_char s"

fun split :: "char \<Rightarrow> string \<Rightarrow> string list" where
  \<comment> \<open>\<open>s.split(sep)\<close> for a one-character separator: the empty string gives one empty piece\<close>
  "split sep [] = [[]]"
| "split sep (c # cs) =
     (if c = sep then [] # split sep cs
      else (case split sep cs of [] \<Rightarrow> [[c]] | w # ws \<Rightarrow> (c # w) # ws))"

definition set_insert :: "'a \<Rightarrow> 'a list \<Rightarrow> 'a list" where
  \<comment> \<open>\<open>Set.prototype.add\<close> on the insertion-ordered elements\<close>
  "set_insert x acc = (if x \<in> set acc then acc else acc @ [x])"

fun indexOf :: "'a list \<Rightarrow> 'a \<Rightarrow> int" where
  \<comment> \<open>\<open>xs.indexOf(x)\<close>: the first index holding \<open>x\<close>, or -1\<close>
  "indexOf [] x = - 1"
| "indexOf (y # ys) x =
     (if y = x then 0 else (let i = indexOf ys x in if i < 0 then - 1 else i + 1))"

definition splice1 :: "'a list \<Rightarrow> int \<Rightarrow> 'a list" where
  \<comment> \<open>the array after \<open>xs.splice(index, 1)\<close>, for \<open>index \<ge> 0\<close>\<close>
  "splice1 xs index = take (nat index) xs @ drop (nat index + 1) xs"

definition dedupe :: "'a list \<Rightarrow> 'a list" where
  \<comment> \<open>\<open>[...new Set(xs)]\<close>: the first occurrence of each element, in order\<close>
  "dedupe xs = fold set_insert xs []"

section \<open>Tag validation (controllers/video.js) and the pre-save hook (models/Video.js)\<close>

datatype tags_input = TagsAbsent | TagsString string | TagsArray "string list"

definition falsy_tags :: "tags_input \<Rightarrow> bool" where
  \<comment> \<open>\<open>!tagsInput\<close>: \<open>undefined\<close> and the empty string are falsy, every array is truthy\<close>
  "falsy_tags t = (case t of TagsAbsent \<Rightarrow> True | TagsString s \<Rightarrow> s = [] | TagsArray ts \<Rightarrow> False)"

definition tags_array :: "tags_input \<Rightarrow> string list" where
  \<comment> \<open>\<open>Array.isArray(tagsInput) ? tagsInput : tagsInput.split(',')\<close>\<close>
  "tags_array t = (case t of TagsArray ts \<Rightarrow> ts | TagsString s \<Rightarrow> split (CHR '','') s | TagsAbsent \<Rightarrow> [])"

definition sanitize :: "string list \<Rightarrow> string list" where
  \<comment> \<open>\<open>.map(tag => tag.trim().toLowerCase()).filter(tag => tag.length > 0)\<close>\<close>
  "sanitize tagsArray = filter (\<lambda>tag. length tag > 0) (map (\<lambda>tag. toLowerCase (trim tag)) tagsArray)"

definition validateAndSanitizeTags :: "tags_input \<Rightarrow> string + string list" where
  \<comment> \<open>\<open>Inl m\<close> is \<open>throw new Error(m)\<close>\<close>
  "validateAndSanitizeTags tagsInput =
     (if falsy_tags tagsInput then Inl ''Tags are required''
      else let sanitizedTags = sanitize (tags_array tagsInput)
           in if length sanitizedTags = 0 then Inl ''At least one valid tag is required''
              else if length sanitizedTags > 10 then Inl ''Maximum of 10 tags allowed''
              else Inr (dedupe sanitizedTags))"

definition presave_tags :: "string list \<Rightarrow> string list" where
  \<comment> \<open>\<open>[...new Set(this.tags.map(tag => tag.trim().toLowerCase()))]\<close>\<close>
  "presave_tags tags = dedupe (map (\<lambda>tag. toLowerCase (trim tag)) tags)"

definition spec_tags :: "tags_input \<Rightarrow> string + string list" where
  \<comment> \<open>The spec's wording of the same step, for comparison: split on comma if given as a
      single string, trim, lowercase, dedupe, require 1 to 10 results.\<close>
  "spec_tags tagsInput =
     (let results = dedupe (map (\<lambda>tag. toLowerCase (trim tag)) (tags_array tagsInput))
      in if 1 \<le> length results \<and> length results \<le> 10 then Inr results
         else Inl ''BadRequest'')"

section \<open>Records of the document database\<close>

type_synonym oid = nat

datatype role = Consumer | Admin

text \<open>
  Modelled from the spec: models/User.js is not among the sources. A user is an identity
  record with name, email (unique), hashed password and role, one of consumer and admin.
\<close>

record user =
  user_id :: oid
  name :: string
  email :: string
  password :: string
  role :: role

datatype status = Pending | Approved | Rejected

text \<open>
  The paths of VideoSchema with their defaults. The timestamps are left out: no operation
  below reads them.
\<close>

record video =
  video_id :: oid
  title :: string
  description :: string
  url :: string
  thumbnail :: "string option"
  tags :: "string list"
  uploadedBy :: oid
  status :: status
  views :: int
  likes :: int
  likedBy :: "oid list"
  comments :: int

text \<open>
  Modelled from the spec: models/Comment.js is not among the sources. A comment has a
  free-text body, a reference to its parent video and a reference to its author. Its
  creation timestamp is left out; the collection keeps the comments in the order of
  their creation.
\<close>

record comment =
  comment_id :: oid
  comment_video :: oid
  comment_user :: oid
  comment_text :: string

text \<open>
  Everything a handler can read or change: the three collections (named as the Mongoose
  models are), the blob names held by the storage container, what the winston logger
  received at level warn or error, and the source of fresh ObjectIds.
\<close>

record world =
  User :: "user list"
  Video :: "video list"
  Comment :: "comment list"
  container :: "string list"
  logs :: "string list"
  next_oid :: oid

section \<open>Requests and responses\<close>

datatype json =
    JNull
  | JBool bool
  | JNum int
  | JStr string
  | JArr "json list"
  | JObj "(string \<times> json) list"

record response =
  res_status :: nat
  res_body :: json

definition json_get :: "json \<Rightarrow> string \<Rightarrow> json option" where
  "json_get j k = (case j of JObj kvs \<Rightarrow> map_of kvs k | _ \<Rightarrow> None)"

definition json_at :: "json \<Rightarrow> string \<Rightarrow> string \<Rightarrow> json option" where
  \<comment> \<open>\<open>j[k1][k2]\<close>\<close>
  "json_at j k1 k2 = (case json_get j k1 of None \<Rightarrow> None | Some x \<Rightarrow> json_get x k2)"

definition reply :: "nat \<Rightarrow> (string \<times> json) list \<Rightarrow> response" where
  \<comment> \<open>\<open>res.status(n).json({...})\<close>\<close>
  "reply n kvs = \<lparr>res_status = n, res_body = JObj kvs\<rparr>"

datatype id_param = Malformed string | Wellformed oid
  \<comment> \<open>an id taken from the URL or the body: a string that does not cast to an ObjectId, or
      the ObjectId it casts to\<close>

definition template :: "string \<Rightarrow> json \<Rightarrow> json" where
  \<comment> \<open>a template literal with one interpolation at its end, kept as its text and the value\<close>
  "template s x = JArr [JStr s, x]"

definition id_json :: "id_param \<Rightarrow> json" where
  "id_json i = (case i of Malformed s \<Rightarrow> JStr s | Wellformed n \<Rightarrow> JNum (int n))"

text \<open>\<open>req.user\<close> as \<open>authenticate\<close> attaches it: the stored user without the password.\<close>

record req_user =
  req_id :: oid
  req_name :: string
  req_email :: string
  req_role :: role

record claims =
  claim_id :: oid
  claim_name :: string
  claim_email :: string
  claim_role :: role

text \<open>
  The libraries the handlers call and the configuration they read: bcryptjs (hashing with
  a salt, comparing), jsonwebtoken (\<open>verify\<close> gives \<open>None\<close> where the library throws:
  malformed, wrongly signed or expired), the URL of the storage container, and the
  validators of models/User.js, which is not among the sources.
\<close>

record ext =
  bcrypt_hash :: "string \<Rightarrow> string \<Rightarrow> string"
  bcrypt_compare :: "string \<Rightarrow> string \<Rightarrow> bool"
  jwt_sign :: "claims \<Rightarrow> string"
  jwt_verify :: "string \<Rightarrow> claims option"
  container_url :: string
  user_validate :: "user \<Rightarrow> bool"

definition role_str :: "role \<Rightarrow> string" where
  "role_str r = (case r of Consumer \<Rightarrow> ''consumer'' | Admin \<Rightarrow> ''admin'')"

definition status_str :: "status \<Rightarrow> string" where
  "status_str s = (case s of Pending \<Rightarrow> ''pending'' | Approved \<Rightarrow> ''approved'' | Rejected \<Rightarrow> ''rejected'')"

definition opt_str :: "string option \<Rightarrow> json" where
  "opt_str x = (case x of None \<Rightarrow> JNull | Some s \<Rightarrow> JStr s)"

section \<open>Queries\<close>

definition User_findOne :: "string \<Rightarrow> world \<Rightarrow> user option" where
  \<comment> \<open>\<open>User.findOne({ email })\<close>\<close>
  "User_findOne e w = find (\<lambda>u. email u = e) (User w)"

definition User_findById :: "oid \<Rightarrow> world \<Rightarrow> user option" where
  "User_findById i w = find (\<lambda>u. user_id u = i) (User w)"

definition User_save :: "ext \<Rightarrow> user \<Rightarrow> world \<Rightarrow> string + world" where
  \<comment> \<open>Modelled from the spec: the email is unique, so storing a second user with a stored
      email is refused, as is a user the schema does not accept (\<open>Inl\<close> is the rejected
      promise); the user is stored with the email as submitted\<close>
  "User_save X u w =
     (if \<not> user_validate X u then Inl ''User validation failed''
      else if email u \<in> set (map email (User w)) then Inl ''E11000 duplicate key error''
      else Inr (w\<lparr>User := User w @ [u], next_oid := next_oid w + 1\<rparr>))"

definition Video_findById :: "oid \<Rightarrow> world \<Rightarrow> video option" where
  "Video_findById i w = find (\<lambda>v. video_id v = i) (Video w)"

fun updateOne :: "('a \<Rightarrow> bool) \<Rightarrow> ('a \<Rightarrow> 'a) \<Rightarrow> 'a list \<Rightarrow> 'a list" where
  \<comment> \<open>the collection after changing the first document that matches\<close>
  "updateOne P f [] = []"
| "updateOne P f (x # xs) = (if P x then f x # xs else x # updateOne P f xs)"

fun deleteOne :: "('a \<Rightarrow> bool) \<Rightarrow> 'a list \<Rightarrow> 'a list" where
  "deleteOne P [] = []"
| "deleteOne P (x # xs) = (if P x then xs else x # deleteOne P xs)"

definition Comment_find :: "oid \<Rightarrow> world \<Rightarrow> comment list" where
  \<comment> \<open>\<open>Comment.find({ video: id }).sort({ createdAt: -1 })\<close>: comments are stored in the
      order of their creation, so newest first is the reverse\<close>
  "Comment_find i w = rev (filter (\<lambda>c. comment_video c = i) (Comment w))"

definition Comment_findById :: "oid \<Rightarrow> world \<Rightarrow> comment option" where
  "Comment_findById i w = find (\<lambda>c. comment_id c = i) (Comment w)"

definition logger :: "string \<Rightarrow> world \<Rightarrow> world" where
  \<comment> \<open>\<open>logger.error(m, ...)\<close> and \<open>logger.warn(m, ...)\<close>\<close>
  "logger m w = w\<lparr>logs := logs w @ [m]\<rparr>"

section \<open>Registration and login (controllers/auth.js)\<close>

definition public_user :: "user \<Rightarrow> json" where
  "public_user u =
     JObj [(''id'', JNum (int (user_id u))), (''name'', JStr (name u)),
           (''email'', JStr (email u)), (''role'', JStr (role_str (role u)))]"

definition token_for :: "ext \<Rightarrow> user \<Rightarrow> string" where
  \<comment> \<open>\<open>jwt.sign({ id, name, email, role }, process.env.JWT_SECRET, { expiresIn: '30d' })\<close>\<close>
  "token_for X u =
     jwt_sign X \<lparr>claim_id = user_id u, claim_name = name u, claim_email = email u, claim_role = role u\<rparr>"

definition missing_fields :: response where
  "missing_fields =
     reply 400 [(''error'', JStr ''Missing required fields''),
                (''details'', JStr ''Name, email, and password are required'')]"

definition user_exists :: response where
  "user_exists =
     reply 400 [(''error'', JStr ''User already exists''),
                (''details'', JStr ''An account with this email already exists'')]"

definition register ::
  "ext \<Rightarrow> string \<Rightarrow> string option \<Rightarrow> string option \<Rightarrow> string option \<Rightarrow> world \<Rightarrow> world \<times> response" where
  \<comment> \<open>The body fields are \<open>None\<close> where the body lacks them; \<open>!x\<close> holds of a missing field
      and of the empty string. \<open>salt\<close> is what \<open>bcrypt.genSalt(10)\<close> returns. The \<open>role\<close>
      of the body is read and not used.\<close>
  "register X salt body_name body_email body_password w =
     (case (body_name, body_email, body_password) of
        (Some n, Some e, Some p) \<Rightarrow>
          if n = [] \<or> e = [] \<or> p = [] then (w, missing_fields)
          else (case User_findOne e w of
                  Some existingUser \<Rightarrow> (w, user_exists)
                | None \<Rightarrow>
                    (let hashedPassword = bcrypt_hash X salt p;
                         newUser = \<lparr>user_id = next_oid w, name = n, email = e,
                                    password = hashedPassword, role = Consumer\<rparr>
                     in case User_save X newUser w of
                          Inl m \<Rightarrow>
                            (w, reply 500 [(''error'', JStr ''Registration failed''), (''details'', JStr m)])
                        | Inr w' \<Rightarrow>
                            (w', reply 201 [(''message'', JStr ''User registered successfully''),
                                            (''user'', public_user newUser),
                                            (''token'', JStr (token_for X newUser))])))
      | _ \<Rightarrow> (w, missing_fields))"

definition missing_credentials :: response where
  "missing_credentials =
     reply 400 [(''error'', JStr ''Missing credentials''),
                (''details'', JStr ''Email and password are required'')]"

definition authentication_failed :: response where
  "authentication_failed =
     reply 401 [(''error'', JStr ''Authentication failed''),
                (''details'', JStr ''Invalid email or password'')]"

definition falsy :: "json \<Rightarrow> bool" where
  \<comment> \<open>\<open>!x\<close> for a value of the JSON body\<close>
  "falsy x = (case x of JNull \<Rightarrow> True | JBool b \<Rightarrow> \<not> b | JNum n \<Rightarrow> n = 0 | JStr s \<Rightarrow> s = []
              | JArr xs \<Rightarrow> False | JObj kvs \<Rightarrow> False)"

definition typeof :: "json \<Rightarrow> string" where
  "typeof x = (case x of JNull \<Rightarrow> ''object'' | JBool b \<Rightarrow> ''boolean'' | JNum n \<Rightarrow> ''number''
               | JStr s \<Rightarrow> ''string'' | JArr xs \<Rightarrow> ''object'' | JObj kvs \<Rightarrow> ''object'')"

definition login_failed :: "string \<Rightarrow> response" where
  \<comment> \<open>the \<open>catch\<close> of \<open>login\<close>\<close>
  "login_failed m = reply 500 [(''error'', JStr ''Login failed''), (''details'', JStr m)]"

definition login :: "ext \<Rightarrow> string option \<Rightarrow> json option \<Rightarrow> world \<Rightarrow> world \<times> response" where
  \<comment> \<open>The password is whatever value the JSON body carries; the handler does not check its
      type. \<open>bcrypt.compare\<close> of bcryptjs rejects with "Illegal arguments" when its first
      argument is not a string, which the \<open>catch\<close> answers with 500. The email is a string
      here: what Mongoose does with a filter of another type is not modelled.\<close>
  "login X body_email body_password w =
     (case (body_email, body_password) of
        (Some e, Some p) \<Rightarrow>
          if e = [] \<or> falsy p then (w, missing_credentials)
          else (case User_findOne e w of
                  None \<Rightarrow> (w, authentication_failed)
                | Some u \<Rightarrow>
                    (case p of
                       JStr pw \<Rightarrow>
                         if \<not> bcrypt_compare X pw (password u) then (w, authentication_failed)
                         else (w, reply 200 [(''message'', JStr ''Login successful''),
                                             (''user'', public_user u),
                                             (''token'', JStr (token_for X u))])
                     | _ \<Rightarrow> (w, login_failed (''Illegal arguments: '' @ typeof p @ '', string''))))
      | _ \<Rightarrow> (w, missing_credentials))"

section \<open>The middleware (middleware/auth.js)\<close>

datatype 'a passed = Rejected response | Next 'a
  \<comment> \<open>a middleware answers the request itself, or calls \<open>next()\<close>\<close>

definition bearer_token :: "string option \<Rightarrow> string option" where
  \<comment> \<open>\<open>req.headers.authorization?.split(' ')[1]\<close>\<close>
  "bearer_token authorization =
     (case authorization of
        None \<Rightarrow> None
      | Some a \<Rightarrow> (case split (CHR '' '') a of x # t # rest \<Rightarrow> Some t | _ \<Rightarrow> None))"

definition without_password :: "user \<Rightarrow> req_user" where
  \<comment> \<open>\<open>.select('-password')\<close>\<close>
  "without_password u =
     \<lparr>req_id = user_id u, req_name = name u, req_email = email u, req_role = role u\<rparr>"

definition authenticate :: "ext \<Rightarrow> string option \<Rightarrow> world \<Rightarrow> (req_user option) passed" where
  \<comment> \<open>\<open>Next r\<close> is \<open>next()\<close> with \<open>req.user = r\<close>; \<open>findById\<close> resolves to \<open>null\<close>, here
      \<open>None\<close>, when no user has the id\<close>
  "authenticate X authorization w =
     (case bearer_token authorization of
        None \<Rightarrow> Rejected (reply 401 [(''error'', JStr ''Access denied. No token provided.'')])
      | Some token \<Rightarrow>
          if token = [] then Rejected (reply 401 [(''error'', JStr ''Access denied. No token provided.'')])
          else (case jwt_verify X token of
                  None \<Rightarrow> Rejected (reply 401 [(''error'', JStr ''Invalid or expired token.'')])
                | Some decoded \<Rightarrow>
                    Next (map_option without_password (User_findById (claim_id decoded) w))))"

definition internal_server_error :: response where
  \<comment> \<open>the global error handler of app.js, reached by an exception thrown outside a handler's
      own \<open>try\<close>; the message is the one of the TypeError\<close>
  "internal_server_error =
     reply 500 [(''error'', JStr ''Internal Server Error''),
                (''message'', JStr ''Cannot read properties of null'')]"

definition authorizeRoles :: "role list \<Rightarrow> req_user option \<Rightarrow> unit passed" where
  "authorizeRoles roles u =
     (case u of
        None \<Rightarrow> Rejected internal_server_error
      | Some ru \<Rightarrow>
          if req_role ru \<notin> set roles
          then Rejected (reply 403 [(''error'', JStr ''Access denied. Unauthorized role.'')])
          else Next ())"

section \<open>The Video model (models/Video.js)\<close>

definition new_Video ::
  "oid \<Rightarrow> string \<Rightarrow> string \<Rightarrow> string \<Rightarrow> string option \<Rightarrow> string list \<Rightarrow> oid \<Rightarrow> status \<Rightarrow> video" where
  \<comment> \<open>\<open>new Video({ title, description, url, thumbnail, tags, uploadedBy, status })\<close>: the
      \<open>trim\<close> setters of title and description run, the other paths take their defaults\<close>
  "new_Video i t d u th tg by st =
     \<lparr>video_id = i, title = trim t, description = trim d, url = u, thumbnail = th, tags = tg,
      uploadedBy = by, status = st, views = 0, likes = 0, likedBy = [], comments = 0\<rparr>"

definition video_validate :: "video \<Rightarrow> bool" where
  \<comment> \<open>the validators of the schema: required, minlength, maxlength, the tags validator\<close>
  "video_validate v =
     (title v \<noteq> [] \<and> 3 \<le> length (title v) \<and> length (title v) \<le> 100 \<and>
      description v \<noteq> [] \<and> 10 \<le> length (description v) \<and> length (description v) \<le> 500 \<and>
      url v \<noteq> [] \<and>
      length (tags v) > 0 \<and> length (tags v) \<le> 10)"

definition presave :: "video \<Rightarrow> video" where
  \<comment> \<open>\<open>VideoSchema.pre('save')\<close>; it runs after validation\<close>
  "presave v = v\<lparr>tags := presave_tags (tags v)\<rparr>"

definition Video_insert :: "video \<Rightarrow> world \<Rightarrow> string + (world \<times> video)" where
  \<comment> \<open>\<open>video.save()\<close> of a new document; \<open>Inl\<close> is the rejection by a ValidationError\<close>
  "Video_insert v w =
     (if \<not> video_validate v then Inl ''Video validation failed''
      else Inr (w\<lparr>Video := Video w @ [presave v], next_oid := next_oid w + 1\<rparr>, presave v))"

definition Video_save :: "video \<Rightarrow> world \<Rightarrow> string + (world \<times> video)" where
  \<comment> \<open>\<open>this.save()\<close> of a document that was read from the collection\<close>
  "Video_save v w =
     (if \<not> video_validate v then Inl ''Video validation failed''
      else Inr (w\<lparr>Video := updateOne (\<lambda>x. video_id x = video_id v) (\<lambda>x. presave v) (Video w)\<rparr>,
                presave v))"

definition incrementViews :: "video \<Rightarrow> video" where
  "incrementViews v = v\<lparr>views := views v + 1\<rparr>"

definition toggleLike :: "oid \<Rightarrow> video \<Rightarrow> video" where
  \<comment> \<open>the document after the method's assignments; the handler saves it\<close>
  "toggleLike userId v =
     (let index = indexOf (likedBy v) userId
      in if index > - 1
         then v\<lparr>likedBy := splice1 (likedBy v) index, likes := likes v - 1\<rparr>
         else v\<lparr>likedBy := likedBy v @ [userId], likes := likes v + 1\<rparr>)"

definition video_path :: "video \<Rightarrow> string \<Rightarrow> string option" where
  \<comment> \<open>\<open>video[p]\<close> for a string-valued property: the paths of the schema; a property the
      schema does not declare is \<open>undefined\<close>\<close>
  "video_path v p =
     (if p = ''title'' then Some (title v)
      else if p = ''description'' then Some (description v)
      else if p = ''url'' then Some (url v)
      else if p = ''thumbnail'' then thumbnail v
      else None)"

section \<open>Blob storage and thumbnails (controllers/video.js)\<close>

record upload_file =
  originalname :: string
  mimetype :: string
  buffer :: string

definition blob_name :: "string \<Rightarrow> string \<Rightarrow> string \<Rightarrow> string" where
  \<comment> \<open>\<open>`${folder}/${uuidv4()}-${originalname}`\<close>\<close>
  "blob_name folder uuid orig = folder @ ''/'' @ uuid @ ''-'' @ orig"

definition uploadBufferToAzure ::
  "ext \<Rightarrow> string option \<Rightarrow> string \<Rightarrow> string \<Rightarrow> string \<Rightarrow> string \<Rightarrow> world \<Rightarrow> world \<times> (string + string)" where
  \<comment> \<open>The outcome is \<open>Some uuid\<close> when \<open>uploadData\<close> resolves, with the value of \<open>uuidv4()\<close>,
      and \<open>None\<close> when it rejects; then the error is logged and thrown again.\<close>
  "uploadBufferToAzure X outcome buf folder orig mime w =
     (case outcome of
        None \<Rightarrow> (logger ''Azure upload error'' w, Inl ''Azure upload failed'')
      | Some uuid \<Rightarrow>
          (w\<lparr>container := container w @ [blob_name folder uuid orig]\<rparr>,
           Inr (container_url X @ ''/'' @ blob_name folder uuid orig)))"

datatype derived = Frame string | StreamError | ResizeError
  \<comment> \<open>how the promise of \<open>generateThumbnailFromBuffer\<close> settles: with the resized frame, by
      the error event of ffmpeg, or by the error of sharp (a promise that never settles is
      not modelled)\<close>

definition generateThumbnailFromBuffer :: "derived \<Rightarrow> string \<Rightarrow> world \<Rightarrow> world \<times> (string + string)" where
  "generateThumbnailFromBuffer outcome videoBuffer w =
     (case outcome of
        Frame processedBuffer \<Rightarrow> (w, Inr processedBuffer)
      | StreamError \<Rightarrow> (logger ''Thumbnail generation error'' w, Inl ''ffmpeg error'')
      | ResizeError \<Rightarrow> (w, Inl ''sharp error''))"

definition pop :: "string list \<Rightarrow> string" where
  \<comment> \<open>the value of \<open>.pop()\<close> on what \<open>split\<close> returned, which is never empty\<close>
  "pop xs = (case rev xs of [] \<Rightarrow> [] | x # rest \<Rightarrow> x)"

definition stem :: "string \<Rightarrow> string" where
  \<comment> \<open>\<open>path.basename(p, path.extname(p))\<close>: the last segment without its extension; a name
      whose only dot is its first character has no extension\<close>
  "stem p =
     (let b = pop (split (CHR ''/'') p);
          r = takeWhile (\<lambda>c. c \<noteq> CHR ''.'') (rev b)
      in if length r = length b \<or> length r + 1 = length b then b
         else take (length b - (length r + 1)) b)"

definition blob_delete :: "string \<Rightarrow> world \<Rightarrow> string + world" where
  \<comment> \<open>\<open>getBlockBlobClient(blobName).delete()\<close>: rejects when the container has no such blob\<close>
  "blob_delete blobName w =
     (if blobName \<in> set (container w)
      then Inr (w\<lparr>container := removeAll blobName (container w)\<rparr>)
      else Inl ''BlobNotFound'')"

record upload_env =
  video_put :: "string option"
  derive :: derived
  thumbnail_put :: "string option"

text \<open>
  The outcomes of the external calls of one upload: the upload of the video blob, the
  derivation of a thumbnail, and the upload of the thumbnail blob (supplied or derived;
  a request makes at most one of the two).
\<close>

definition derivation_fails :: "upload_env \<Rightarrow> bool" where
  \<comment> \<open>no thumbnail comes out of the derivation: the frame is not extracted or not resized,
      or the upload of the derived image is refused\<close>
  "derivation_fails E = (case derive E of Frame b \<Rightarrow> thumbnail_put E = None | _ \<Rightarrow> True)"

definition handle_thumbnail ::
  "ext \<Rightarrow> upload_env \<Rightarrow> upload_file \<Rightarrow> upload_file option \<Rightarrow> world \<Rightarrow> world \<times> (string + string option)" where
  \<comment> \<open>the block under "Handle thumbnail": \<open>Inr thumbnailUrl\<close>, or \<open>Inl\<close> the error that leaves it\<close>
  "handle_thumbnail X E videoFile thumbnailFile w =
     (case thumbnailFile of
        Some tf \<Rightarrow>
          (case uploadBufferToAzure X (thumbnail_put E) (buffer tf) ''thumbnails''
                  (originalname tf) (mimetype tf) w of
             (w1, Inl m) \<Rightarrow> (w1, Inl m)
           | (w1, Inr thumbnailUrl) \<Rightarrow> (w1, Inr (Some thumbnailUrl)))
      | None \<Rightarrow>
          (case generateThumbnailFromBuffer (derive E) (buffer videoFile) w of
             (w1, Inl m) \<Rightarrow> (logger ''Thumbnail generation failed'' w1, Inr None)
           | (w1, Inr thumbnailBuffer) \<Rightarrow>
               (case uploadBufferToAzure X (thumbnail_put E) thumbnailBuffer ''thumbnails''
                       (stem (originalname videoFile) @ ''_thumbnail.png'') ''image/png'' w1 of
                  (w2, Inl m) \<Rightarrow> (logger ''Thumbnail generation failed'' w2, Inr None)
                | (w2, Inr thumbnailUrl) \<Rightarrow> (w2, Inr (Some thumbnailUrl)))))"

section \<open>The video handlers (controllers/video.js)\<close>

definition upload_failed :: "world \<Rightarrow> string \<Rightarrow> world \<times> response" where
  \<comment> \<open>the outer \<open>catch\<close> of \<open>uploadVideo\<close>\<close>
  "upload_failed w m =
     (logger ''Video upload error'' w,
      reply 500 [(''error'', JStr ''Video upload failed''), (''details'', JStr m)])"

definition store_video ::
  "req_user \<Rightarrow> string \<Rightarrow> string \<Rightarrow> string list \<Rightarrow> string \<Rightarrow> string option \<Rightarrow> world \<Rightarrow> world \<times> response" where
  \<comment> \<open>from "Create video record in database" to the response\<close>
  "store_video ru t d sanitizedTags videoUrl thumbnailUrl w =
     (let v = new_Video (next_oid w) t d videoUrl thumbnailUrl sanitizedTags (req_id ru)
                (if req_role ru = Admin then Approved else Pending)
      in case Video_insert v w of
           Inl m \<Rightarrow> upload_failed w m
         | Inr (w1, saved) \<Rightarrow>
             (w1, reply 201 [(''message'', JStr ''Video uploaded successfully''),
                             (''video'', JObj [(''id'', JNum (int (video_id saved))),
                                               (''title'', JStr (title saved)),
                                               (''url'', JStr (url saved)),
                                               (''thumbnail'', opt_str (thumbnail saved)),
                                               (''tags'', JArr (map JStr (tags saved))),
                                               (''status'', JStr (status_str (status saved)))])]))"

definition uploadVideo ::
  "ext \<Rightarrow> upload_env \<Rightarrow> req_user option \<Rightarrow> string option \<Rightarrow> string option \<Rightarrow> tags_input \<Rightarrow>
   upload_file option \<Rightarrow> upload_file option \<Rightarrow> world \<Rightarrow> world \<times> response" where
  \<comment> \<open>\<open>req.user\<close> is read first, by the logger call that opens the \<open>try\<close>\<close>
  "uploadVideo X E u body_title body_description body_tags videoFile thumbnailFile w =
     (case u of
        None \<Rightarrow> upload_failed w ''Cannot read properties of null''
      | Some ru \<Rightarrow>
          (case body_title of
             None \<Rightarrow> (w, reply 400 [(''error'', JStr ''Title is required'')])
           | Some t \<Rightarrow>
               if t = [] then (w, reply 400 [(''error'', JStr ''Title is required'')])
               else if length t < 3 \<or> length t > 100
               then (w, reply 400 [(''error'', JStr ''Title must be between 3 and 100 characters'')])
               else
                 (case body_description of
                    None \<Rightarrow> (w, reply 400 [(''error'', JStr ''Description is required'')])
                  | Some d \<Rightarrow>
                      if d = [] then (w, reply 400 [(''error'', JStr ''Description is required'')])
                      else if length d < 10 \<or> length d > 500
                      then (w, reply 400 [(''error'', JStr ''Description must be between 10 and 500 characters'')])
                      else
                        (case validateAndSanitizeTags body_tags of
                           Inl m \<Rightarrow> (w, reply 400 [(''error'', JStr m)])
                         | Inr sanitizedTags \<Rightarrow>
                             if req_role ru \<notin> set [Admin]
                             then (logger ''Unauthorized video upload attempt'' w,
                                   reply 403 [(''error'', JStr ''Not authorized to upload videos'')])
                             else
                               (case videoFile of
                                  None \<Rightarrow> (logger ''No video file uploaded'' w,
                                            reply 400 [(''error'', JStr ''Video file is required'')])
                                | Some vf \<Rightarrow>
                                    (case uploadBufferToAzure X (video_put E) (buffer vf) ''videos''
                                            (originalname vf) (mimetype vf) w of
                                       (w1, Inl m) \<Rightarrow> upload_failed w1 m
                                     | (w1, Inr videoUrl) \<Rightarrow>
                                         (case handle_thumbnail X E vf thumbnailFile w1 of
                                            (w2, Inl m) \<Rightarrow> upload_failed w2 m
                                          | (w2, Inr thumbnailUrl) \<Rightarrow>
                                              store_video ru t d sanitizedTags videoUrl thumbnailUrl w2)))))))"

definition video_json :: "world \<Rightarrow> video \<Rightarrow> json" where
  \<comment> \<open>the lean document with \<open>.populate('uploadedBy', 'name')\<close>\<close>
  "video_json w v =
     JObj [(''_id'', JNum (int (video_id v))),
           (''title'', JStr (title v)),
           (''description'', JStr (description v)),
           (''url'', JStr (url v)),
           (''thumbnail'', opt_str (thumbnail v)),
           (''tags'', JArr (map JStr (tags v))),
           (''uploadedBy'',
              (case User_findById (uploadedBy v) w of
                 None \<Rightarrow> JNull
               | Some up \<Rightarrow> JObj [(''_id'', JNum (int (user_id up))), (''name'', JStr (name up))])),
           (''status'', JStr (status_str (status v))),
           (''views'', JNum (views v)),
           (''likes'', JNum (likes v)),
           (''likedBy'', JArr (map (\<lambda>i. JNum (int i)) (likedBy v))),
           (''comments'', JNum (comments v))]"

definition comment_json :: "world \<Rightarrow> comment \<Rightarrow> json" where
  \<comment> \<open>the lean comment with \<open>.populate('user', 'name email')\<close>\<close>
  "comment_json w c =
     JObj [(''_id'', JNum (int (comment_id c))),
           (''video'', JNum (int (comment_video c))),
           (''user'',
              (case User_findById (comment_user c) w of
                 None \<Rightarrow> JNull
               | Some a \<Rightarrow> JObj [(''_id'', JNum (int (user_id a))), (''name'', JStr (name a)),
                                  (''email'', JStr (email a))])),
           (''text'', JStr (comment_text c))]"

definition getVideoById :: "req_user option \<Rightarrow> id_param \<Rightarrow> world \<Rightarrow> world \<times> response" where
  \<comment> \<open>the response carries the document as it was read, before the \<open>$inc\<close>\<close>
  "getVideoById u ident w =
     (case ident of
        Malformed s \<Rightarrow>
          (w, reply 400 [(''error'', JStr ''Invalid video ID''),
                         (''details'', template ''Received ID: '' (JStr s))])
      | Wellformed i \<Rightarrow>
          (case Video_findById i w of
             None \<Rightarrow>
               (w, reply 404 [(''error'', JStr ''Video not found''),
                              (''details'', template ''No video found with ID: '' (JNum (int i)))])
           | Some v \<Rightarrow>
               (case u of
                  None \<Rightarrow>
                    (w, reply 500 [(''error'', JStr ''Failed to retrieve video''),
                                   (''details'', JStr ''Cannot read properties of null'')])
                | Some ru \<Rightarrow>
                    if req_role ru = Consumer \<and> status v \<noteq> Approved
                    then (logger ''Unauthorized video access attempt'' w,
                          reply 403 [(''error'', JStr ''Video not available'')])
                    else
                      (let w1 = (if status v = Approved
                                 then w\<lparr>Video := updateOne (\<lambda>x. video_id x = i)
                                                    (\<lambda>x. x\<lparr>views := views x + 1\<rparr>) (Video w)\<rparr>
                                 else w)
                       in (w1, reply 200 [(''video'', video_json w v),
                                          (''comments'', JArr (map (comment_json w1) (Comment_find i w1)))])))))"

definition like_failed :: "world \<Rightarrow> string \<Rightarrow> world \<times> response" where
  "like_failed w m =
     (logger ''Like video error'' w,
      reply 500 [(''error'', JStr ''Failed to like video''), (''details'', JStr m)])"

definition likeVideo :: "req_user option \<Rightarrow> id_param \<Rightarrow> world \<Rightarrow> world \<times> response" where
  "likeVideo u ident w =
     (case ident of
        Malformed s \<Rightarrow> like_failed w ''Cast to ObjectId failed''
      | Wellformed i \<Rightarrow>
          (case Video_findById i w of
             None \<Rightarrow> (logger ''Video not found'' w, reply 404 [(''error'', JStr ''Video not found'')])
           | Some v \<Rightarrow>
               (case u of
                  None \<Rightarrow> like_failed w ''Cannot read properties of null''
                | Some ru \<Rightarrow>
                    if req_role ru \<noteq> Consumer
                    then (logger ''Unauthorized video like attempt'' w,
                          reply 403 [(''error'', JStr ''Not authorized to like videos'')])
                    else
                      (case Video_save (toggleLike (req_id ru) v) w of
                         Inl m \<Rightarrow> like_failed w m
                       | Inr (w1, saved) \<Rightarrow>
                           (w1, reply 200 [(''message'', JStr ''Video like toggled''),
                                           (''likes'', JNum (likes saved))])))))"

definition delete_blob_of :: "string option \<Rightarrow> world \<Rightarrow> string + world" where
  \<comment> \<open>\<open>if (x) { await getBlockBlobClient(x.split('/').pop()).delete() }\<close>\<close>
  "delete_blob_of x w =
     (case x of
        None \<Rightarrow> Inr w
      | Some link \<Rightarrow> if link = [] then Inr w else blob_delete (pop (split (CHR ''/'') link)) w)"

definition delete_blobs :: "video \<Rightarrow> world \<Rightarrow> world" where
  \<comment> \<open>the inner \<open>try\<close> of \<open>deleteVideo\<close>, which reads \<open>video.videoUrl\<close> and
      \<open>video.thumbnailUrl\<close>; its \<open>catch\<close> logs and goes on\<close>
  "delete_blobs v w =
     (case delete_blob_of (video_path v ''videoUrl'') w of
        Inl m \<Rightarrow> logger ''Error deleting video from Azure Blob Storage'' w
      | Inr w1 \<Rightarrow>
          (case delete_blob_of (video_path v ''thumbnailUrl'') w1 of
             Inl m \<Rightarrow> logger ''Error deleting video from Azure Blob Storage'' w1
           | Inr w2 \<Rightarrow> w2))"

definition delete_failed :: "world \<Rightarrow> string \<Rightarrow> world \<times> response" where
  "delete_failed w m =
     (logger ''Delete video error'' w,
      reply 500 [(''error'', JStr ''Failed to delete video''), (''details'', JStr m)])"

definition deleteVideo :: "req_user option \<Rightarrow> id_param \<Rightarrow> world \<Rightarrow> world \<times> response" where
  "deleteVideo u ident w =
     (case ident of
        Malformed s \<Rightarrow> delete_failed w ''Cast to ObjectId failed''
      | Wellformed i \<Rightarrow>
          (case Video_findById i w of
             None \<Rightarrow> (logger ''Video not found'' w, reply 404 [(''error'', JStr ''Video not found'')])
           | Some v \<Rightarrow>
               (case u of
                  None \<Rightarrow> delete_failed w ''Cannot read properties of null''
                | Some ru \<Rightarrow>
                    if req_role ru \<noteq> Admin
                    then (logger ''Unauthorized video deletion attempt'' w,
                          reply 403 [(''error'', JStr ''Not authorized to delete videos'')])
                    else
                      (let w1 = w\<lparr>Comment := filter (\<lambda>c. comment_video c \<noteq> video_id v) (Comment w)\<rparr>;
                           w2 = w1\<lparr>Video := deleteOne (\<lambda>x. video_id x = video_id v) (Video w1)\<rparr>;
                           w3 = delete_blobs v w2
                       in (w3, reply 200 [(''message'',
                                           JStr ''Video and associated comments deleted successfully'')])))))"

section \<open>The comment handlers (controllers/comment.js)\<close>

definition addComment :: "req_user option \<Rightarrow> id_param \<Rightarrow> string \<Rightarrow> world \<Rightarrow> world \<times> response" where
  \<comment> \<open>Modelled from the spec: \<open>comment.save()\<close> stores the comment as it is\<close>
  "addComment u videoId body_text w =
     (case videoId of
        Malformed s \<Rightarrow>
          (w, reply 500 [(''error'', JStr ''Failed to add comment''),
                         (''details'', JStr ''Cast to ObjectId failed'')])
      | Wellformed i \<Rightarrow>
          (case Video_findById i w of
             None \<Rightarrow> (w, reply 404 [(''error'', JStr ''Video not found'')])
           | Some v \<Rightarrow>
               (case u of
                  None \<Rightarrow>
                    (w, reply 500 [(''error'', JStr ''Failed to add comment''),
                                   (''details'', JStr ''Cannot read properties of null'')])
                | Some ru \<Rightarrow>
                    (let c = \<lparr>comment_id = next_oid w, comment_video = i,
                              comment_user = req_id ru, comment_text = body_text\<rparr>
                     in (w\<lparr>Comment := Comment w @ [c], next_oid := next_oid w + 1\<rparr>,
                         reply 201 [(''message'', JStr ''Comment added successfully''),
                                    (''comment'', JObj [(''id'', JNum (int (comment_id c))),
                                                        (''text'', JStr (comment_text c))])])))))"

definition deleteComment :: "req_user option \<Rightarrow> id_param \<Rightarrow> world \<Rightarrow> world \<times> response" where
  "deleteComment u commentId w =
     (case commentId of
        Malformed s \<Rightarrow>
          (w, reply 500 [(''error'', JStr ''Failed to delete comment''),
                         (''details'', JStr ''Cast to ObjectId failed'')])
      | Wellformed i \<Rightarrow>
          (case Comment_findById i w of
             None \<Rightarrow> (w, reply 404 [(''error'', JStr ''Comment not found'')])
           | Some c \<Rightarrow>
               (case u of
                  None \<Rightarrow>
                    (w, reply 500 [(''error'', JStr ''Failed to delete comment''),
                                   (''details'', JStr ''Cannot read properties of null'')])
                | Some ru \<Rightarrow>
                    if comment_user c \<noteq> req_id ru \<and> req_role ru \<noteq> Admin
                    then (w, reply 403 [(''error'', JStr ''Not authorized to delete this comment'')])
                    else (w\<lparr>Comment := deleteOne (\<lambda>x. comment_id x = comment_id c) (Comment w)\<rparr>,
                          reply 200 [(''message'', JStr ''Comment deleted successfully'')]))))"

section \<open>The states the handlers can reach\<close>

datatype request =
    Register string "string option" "string option" "string option"
  | Login "string option" "json option"
  | UploadVideo upload_env "req_user option" "string option" "string option" tags_input
      "upload_file option" "upload_file option"
  | GetVideoById "req_user option" id_param
  | LikeVideo "req_user option" id_param
  | DeleteVideo "req_user option" id_param
  | AddComment "req_user option" id_param string
  | DeleteComment "req_user option" id_param

fun handle :: "ext \<Rightarrow> request \<Rightarrow> world \<Rightarrow> world \<times> response" where
  "handle X (Register salt n e p) w = register X salt n e p w"
| "handle X (Login e p) w = login X e p w"
| "handle X (UploadVideo E u t d tg vf tf) w = uploadVideo X E u t d tg vf tf w"
| "handle X (GetVideoById u i) w = getVideoById u i w"
| "handle X (LikeVideo u i) w = likeVideo u i w"
| "handle X (DeleteVideo u i) w = deleteVideo u i w"
| "handle X (AddComment u i t) w = addComment u i t w"
| "handle X (DeleteComment u i) w = deleteComment u i w"

fun run :: "ext \<Rightarrow> request list \<Rightarrow> world \<Rightarrow> world" where
  \<comment> \<open>the state after a sequence of requests, served one after the other\<close>
  "run X [] w = w"
| "run X (r # rs) w = run X rs (fst (handle X r w))"

definition reached :: "ext \<Rightarrow> world \<Rightarrow> request list \<Rightarrow> world \<Rightarrow> bool" where
  "reached X w0 rs w = (Video w0 = [] \<and> w = run X rs w0)"

text \<open>
  A state is reached when the handlers that write produce it, one request after the
  other, from a state without videos. The remaining handlers (listing, statistics,
  analytics, reading comments, the current user) only read. The acting user of a request
  is arbitrary here, which covers whatever the middleware attaches. Requests are served
  one at a time: interleavings of concurrent requests are not modelled.
\<close>

section \<open>Invariants of a stored video\<close>

definition video_inv :: "video \<Rightarrow> bool" where
  \<comment> \<open>the document passes the schema, its counter is the size of its like-set, and no
      user is in the like-set twice\<close>
  "video_inv v = (video_validate v \<and> likes v = int (length (likedBy v)) \<and> distinct (likedBy v))"

definition world_inv :: "world \<Rightarrow> bool" where
  "world_inv w = list_all video_inv (Video w)"

definition like_fields :: "video \<Rightarrow> oid \<times> int \<times> oid list" where
  "like_fields v = (video_id v, likes v, likedBy v)"

definition like_frame :: "request \<Rightarrow> world \<Rightarrow> world \<Rightarrow> bool" where
  \<comment> \<open>What a request may do to the like fields of the stored videos, document by document
      and id by id (\<open>w\<close> before, \<open>w'\<close> after): an upload adds at most one video, with a
      fresh id, counter 0 and nobody in its like-set; a deletion removes at most the video
      of its id; \<open>likeVideo\<close> changes at most the video of its id, to what \<open>toggleLike\<close>
      gives for the acting user; every other request changes nothing.\<close>
  "like_frame r w w' =
     (let old = map like_fields (Video w); new = map like_fields (Video w')
      in case r of
           UploadVideo E u t d tg vf tf \<Rightarrow> new = old \<or> new = old @ [(next_oid w, 0, [])]
         | LikeVideo u ident \<Rightarrow>
             new = old \<or>
             (case (u, ident) of
                (Some ru, Wellformed i) \<Rightarrow>
                  (case Video_findById i w of
                     Some v \<Rightarrow>
                       new = map like_fields
                               (updateOne (\<lambda>x. video_id x = i) (\<lambda>x. toggleLike (req_id ru) v) (Video w))
                   | None \<Rightarrow> False)
              | _ \<Rightarrow> False)
         | DeleteVideo u ident \<Rightarrow>
             new = old \<or>
             (case ident of
                Wellformed i \<Rightarrow> new = map like_fields (deleteOne (\<lambda>x. video_id x = i) (Video w))
              | Malformed s \<Rightarrow> False)
         | _ \<Rightarrow> new = old)"

section \<open>A small installation, built by the handlers themselves\<close>

definition demo_ext :: ext where
  "demo_ext =
     \<lparr>bcrypt_hash = (\<lambda>salt p. salt @ p),
      bcrypt_compare = (\<lambda>p h. h = ''$2a$'' @ p),
      jwt_sign = (\<lambda>c. ''token-'' @ claim_email c),
      jwt_verify = (\<lambda>t. if t = ''token-gone''
                          then Some \<lparr>claim_id = 7, claim_name = ''Gone'',
                                     claim_email = ''gone@example.com'', claim_role = Consumer\<rparr>
                          else None),
      container_url = ''https://store.example/media'',
      user_validate = (\<lambda>u. CHR ''@'' \<in> set (email u))\<rparr>"

definition demo_admin :: user where
  "demo_admin = \<lparr>user_id = 1, name = ''Admin'', email = ''admin@beatly.com'',
                  password = ''$2a$admin123'', role = Admin\<rparr>"

definition demo_fan :: user where
  "demo_fan = \<lparr>user_id = 2, name = ''Fan'', email = ''fan@example.com'',
                password = ''$2a$secret'', role = Consumer\<rparr>"

definition demo_start :: world where
  "demo_start = \<lparr>User = [demo_admin, demo_fan], Video = [], Comment = [], container = [],
                  logs = [], next_oid = 3\<rparr>"

definition demo_clip :: upload_file where
  "demo_clip = \<lparr>originalname = ''clip.mp4'', mimetype = ''video/mp4'', buffer = ''bytes''\<rparr>"

definition demo_upload :: request where
  "demo_upload =
     UploadVideo \<lparr>video_put = Some ''u1'', derive = Frame ''png'', thumbnail_put = Some ''u2''\<rparr>
       (Some (without_password demo_admin)) (Some ''My Clip'') (Some ''twenty characters ok'')
       (TagsString ''music,live'') (Some demo_clip) None"

definition demo_video :: video where
  "demo_video =
     \<lparr>video_id = 3, title = ''My Clip'', description = ''twenty characters ok'',
      url = ''https://store.example/media/videos/u1-clip.mp4'',
      thumbnail = Some ''https://store.example/media/thumbnails/u2-clip_thumbnail.png'',
      tags = [''music'', ''live''], uploadedBy = 1, status = Approved, views = 0, likes = 0,
      likedBy = [], comments = 0\<rparr>"

definition demo_requests :: "request list" where
  "demo_requests =
     [demo_upload,
      AddComment (Some (without_password demo_fan)) (Wellformed 3) ''nice'',
      AddComment (Some (without_password demo_fan)) (Wellformed 3) ''again'']"

definition demo_world :: world where
  \<comment> \<open>after the admin's upload and two comments of the consumer\<close>
  "demo_world = run demo_ext demo_requests demo_start"


section \<open>Facts about strings and sets\<close>

lemma lower_char_idem: "lower_char (lower_char c) = lower_char c"
  by (simp add: lower_char_def Let_def)

lemma is_space_lower: "is_space (lower_char c) = is_space c"
  by (simp add: lower_char_def Let_def is_space_def)

lemma toLowerCase_idem: "toLowerCase (toLowerCase s) = toLowerCase s"
  by (simp add: toLowerCase_def lower_char_idem)

lemma dropWhile_space_lower:
  "dropWhile is_space (map lower_char s) = map lower_char (dropWhile is_space s)"
  by (induction s) (simp_all add: is_space_lower)

lemma trim_toLowerCase: "trim (toLowerCase s) = toLowerCase (trim s)"
  by (simp add: trim_def toLowerCase_def dropWhile_space_lower rev_map)

lemma dropWhile_rev_dropWhile:
  "dropWhile P (rev (dropWhile P (rev (dropWhile P s)))) = rev (dropWhile P (rev (dropWhile P s)))"
proof (cases "dropWhile P s")
  case Nil
  show ?thesis unfolding Nil by simp
next
  case (Cons y ys)
  then have "\<not> P y"
    using hd_dropWhile [of P s] by simp
  then show ?thesis
    by (simp add: Cons dropWhile_append3)
qed

lemma trim_idem: "trim (trim s) = trim s"
  by (simp add: trim_def dropWhile_rev_dropWhile)

lemma fold_set_insert_set: "set (fold set_insert xs acc) = set acc \<union> set xs"
  by (induction xs arbitrary: acc) (auto simp: set_insert_def)

lemma fold_set_insert_distinct: "distinct acc \<Longrightarrow> distinct (fold set_insert xs acc)"
  by (induction xs arbitrary: acc) (auto simp: set_insert_def)

lemma fold_set_insert_length: "length (fold set_insert xs acc) \<le> length acc + length xs"
proof (induction xs arbitrary: acc)
  case Nil
  then show ?case by simp
next
  case (Cons x xs)
  have "length (fold set_insert xs (set_insert x acc)) \<le> length (set_insert x acc) + length xs"
    by (rule Cons.IH)
  moreover have "length (set_insert x acc) \<le> length acc + 1"
    by (simp add: set_insert_def)
  ultimately show ?case by simp
qed

lemma fold_set_insert_id: "distinct (acc @ xs) \<Longrightarrow> fold set_insert xs acc = acc @ xs"
  by (induction xs arbitrary: acc) (auto simp: set_insert_def)

lemma set_dedupe: "set (dedupe xs) = set xs"
  by (simp add: dedupe_def fold_set_insert_set)

lemma distinct_dedupe: "distinct (dedupe xs)"
  by (simp add: dedupe_def fold_set_insert_distinct)

lemma length_dedupe: "length (dedupe xs) \<le> length xs"
  using fold_set_insert_length [of xs "[]"] by (simp add: dedupe_def)

lemma dedupe_distinct_id: "distinct xs \<Longrightarrow> dedupe xs = xs"
  using fold_set_insert_id [of "[]" xs] by (simp add: dedupe_def)

lemma dedupe_Nil_iff: "dedupe xs = [] \<longleftrightarrow> xs = []"
  using set_dedupe [of xs] by (metis set_empty)

section \<open>Tag validation\<close>

lemma sanitize_fixed:
  assumes "\<forall>x \<in> set ts. x \<noteq> [] \<and> toLowerCase (trim x) = x"
  shows "sanitize ts = ts"
  using assms by (induction ts) (simp_all add: sanitize_def)

lemma sanitize_elems:
  "x \<in> set (sanitize ts) \<Longrightarrow> x \<noteq> [] \<and> trim x = x \<and> toLowerCase x = x"
  by (auto simp: sanitize_def trim_toLowerCase trim_idem toLowerCase_idem)

lemma validate_Inr_iff:
  "validateAndSanitizeTags t = Inr ts \<longleftrightarrow>
     \<not> falsy_tags t \<and> 1 \<le> length (sanitize (tags_array t)) \<and>
     length (sanitize (tags_array t)) \<le> 10 \<and> ts = dedupe (sanitize (tags_array t))"
  by (cases "sanitize (tags_array t)") (auto simp: validateAndSanitizeTags_def Let_def)

lemma validated_tags:
  assumes "validateAndSanitizeTags t = Inr ts"
  shows "distinct ts" and "1 \<le> length ts" and "length ts \<le> 10"
    and "\<forall>x \<in> set ts. x \<noteq> [] \<and> trim x = x \<and> toLowerCase x = x"
proof -
  let ?s = "sanitize (tags_array t)"
  from assms have ts: "ts = dedupe ?s" and lo: "1 \<le> length ?s" and hi: "length ?s \<le> 10"
    by (simp_all add: validate_Inr_iff)
  show "distinct ts" by (simp add: ts distinct_dedupe)
  from lo have "?s \<noteq> []" by auto
  then have "ts \<noteq> []" by (simp add: ts dedupe_Nil_iff)
  then show "1 \<le> length ts" by (cases ts) simp_all
  show "length ts \<le> 10" using length_dedupe [of ?s] hi by (simp add: ts)
  show "\<forall>x \<in> set ts. x \<noteq> [] \<and> trim x = x \<and> toLowerCase x = x"
    using sanitize_elems by (simp add: ts set_dedupe)
qed

lemma validated_tags_fixed:
  assumes "validateAndSanitizeTags t = Inr ts"
  shows "validateAndSanitizeTags (TagsArray ts) = Inr ts" and "presave_tags ts = ts"
proof -
  note v = validated_tags [OF assms]
  from v(4) have fixed: "\<forall>x \<in> set ts. x \<noteq> [] \<and> toLowerCase (trim x) = x" by simp
  then have s: "sanitize ts = ts" by (rule sanitize_fixed)
  show "validateAndSanitizeTags (TagsArray ts) = Inr ts"
    using v(1-3) by (simp add: validate_Inr_iff falsy_tags_def tags_array_def s dedupe_distinct_id)
  from fixed have "map (\<lambda>tag. toLowerCase (trim tag)) ts = ts"
    by (simp add: map_idI)
  then show "presave_tags ts = ts"
    using v(1) by (simp add: presave_tags_def dedupe_distinct_id)
qed

lemma uploadVideo_bad_tags:
  assumes "validateAndSanitizeTags t = Inl m"
    and "ti \<noteq> []" "3 \<le> length ti" "length ti \<le> 100"
    and "d \<noteq> []" "10 \<le> length d" "length d \<le> 500"
  shows "uploadVideo X E (Some ru) (Some ti) (Some d) t vf tf w = (w, reply 400 [(''error'', JStr m)])"
  using assms by (simp add: uploadVideo_def)

text \<open>
  C8, as the spec words it, does not hold: the spec removes duplicates before it counts and
  keeps empty tags, the code counts the non-empty tags before it removes duplicates. Eleven
  copies of one tag are one result for the spec and are refused by the code; a blank tag is
  a result for the spec and is dropped by the code.
\<close>

theorem spec_tags_differs:
  "spec_tags (TagsArray (replicate 11 ''a'')) = Inr [''a''] \<and>
   validateAndSanitizeTags (TagsArray (replicate 11 ''a'')) = Inl ''Maximum of 10 tags allowed'' \<and>
   spec_tags (TagsArray [''a'', '' '']) = Inr [''a'', []] \<and>
   validateAndSanitizeTags (TagsArray [''a'', '' '']) = Inr [''a'']"
  by code_simp

text \<open>
  C8, amended. Tag validation splits a single string on commas, trims and lowercases each
  tag, drops the tags that are then empty, and succeeds exactly when between 1 and 10 tags
  remain, counted before duplicates are removed; the result is those tags without
  duplicates, so it holds between 1 and 10 distinct, non-empty, trimmed, lowercase tags.
  A failure is answered by \<open>uploadVideo\<close> with status 400 and the message of the failure.
  Normalisation is idempotent: validating an accepted result again, or running the pre-save
  hook on it, leaves it unchanged. The tags \<open>["Music", "music", " ROCK "]\<close> give
  \<open>["music", "rock"]\<close>.
\<close>

theorem validateAndSanitizeTags_normalises:
  "(validateAndSanitizeTags t = Inr ts \<longrightarrow>
      ts = dedupe (sanitize (tags_array t)) \<and>
      distinct ts \<and> 1 \<le> length ts \<and> length ts \<le> 10 \<and>
      (\<forall>x \<in> set ts. x \<noteq> [] \<and> trim x = x \<and> toLowerCase x = x) \<and>
      validateAndSanitizeTags (TagsArray ts) = Inr ts \<and> presave_tags ts = ts) \<and>
   ((\<exists>r. validateAndSanitizeTags t = Inr r) \<longleftrightarrow>
      \<not> falsy_tags t \<and> 1 \<le> length (sanitize (tags_array t)) \<and>
      length (sanitize (tags_array t)) \<le> 10) \<and>
   (validateAndSanitizeTags t = Inl m \<and> ti \<noteq> [] \<and> 3 \<le> length ti \<and> length ti \<le> 100 \<and>
    d \<noteq> [] \<and> 10 \<le> length d \<and> length d \<le> 500 \<longrightarrow>
      uploadVideo X E (Some ru) (Some ti) (Some d) t vf tf w = (w, reply 400 [(''error'', JStr m)])) \<and>
   tags_array (TagsString s) = split (CHR '','') s \<and>
   validateAndSanitizeTags (TagsArray [''Music'', ''music'', '' ROCK '']) = Inr [''music'', ''rock'']"
proof (intro conjI impI)
  assume a: "validateAndSanitizeTags t = Inr ts"
  then show "ts = dedupe (sanitize (tags_array t))" by (simp add: validate_Inr_iff)
  from a show "distinct ts" by (rule validated_tags(1))
  from a show "1 \<le> length ts" by (rule validated_tags(2))
  from a show "length ts \<le> 10" by (rule validated_tags(3))
  from a show "\<forall>x \<in> set ts. x \<noteq> [] \<and> trim x = x \<and> toLowerCase x = x"
    by (rule validated_tags(4))
  from a show "validateAndSanitizeTags (TagsArray ts) = Inr ts" by (rule validated_tags_fixed(1))
  from a show "presave_tags ts = ts" by (rule validated_tags_fixed(2))
next
  show "(\<exists>r. validateAndSanitizeTags t = Inr r) \<longleftrightarrow>
      \<not> falsy_tags t \<and> 1 \<le> length (sanitize (tags_array t)) \<and>
      length (sanitize (tags_array t)) \<le> 10"
    by (simp add: validate_Inr_iff)
next
  assume "validateAndSanitizeTags t = Inl m \<and> ti \<noteq> [] \<and> 3 \<le> length ti \<and> length ti \<le> 100 \<and>
    d \<noteq> [] \<and> 10 \<le> length d \<and> length d \<le> 500"
  then show "uploadVideo X E (Some ru) (Some ti) (Some d) t vf tf w = (w, reply 400 [(''error'', JStr m)])"
    by (simp add: uploadVideo_bad_tags)
next
  show "tags_array (TagsString s) = split (CHR '','') s" by (simp add: tags_array_def)
next
  show "validateAndSanitizeTags (TagsArray [''Music'', ''music'', '' ROCK '']) = Inr [''music'', ''rock'']"
    by code_simp
qed

theorem validateAndSanitizeTags_normalises_witness:
  "validateAndSanitizeTags (TagsString ''Music, music,, ROCK ,'') = Inr [''music'', ''rock''] \<and>
   validateAndSanitizeTags (TagsArray [''music'', ''rock'']) = Inr [''music'', ''rock''] \<and>
   presave_tags [''music'', ''rock''] = [''music'', ''rock''] \<and>
   validateAndSanitizeTags (TagsArray (replicate 11 ''a'')) = Inl ''Maximum of 10 tags allowed'' \<and>
   uploadVideo demo_ext \<lparr>video_put = None, derive = ResizeError, thumbnail_put = None\<rparr>
     (Some (without_password demo_admin)) (Some ''My Clip'') (Some ''twenty characters ok'')
     (TagsArray (replicate 11 ''a'')) (Some demo_clip) None demo_start
   = (demo_start, reply 400 [(''error'', JStr ''Maximum of 10 tags allowed'')])"
proof -
  have a: "validateAndSanitizeTags (TagsString ''Music, music,, ROCK ,'') = Inr [''music'', ''rock'']"
    by code_simp
  have b: "validateAndSanitizeTags (TagsArray (replicate 11 ''a'')) = Inl ''Maximum of 10 tags allowed''"
    by code_simp
  have c: "''My Clip'' \<noteq> [] \<and> 3 \<le> length ''My Clip'' \<and> length ''My Clip'' \<le> 100 \<and>
           ''twenty characters ok'' \<noteq> [] \<and> 10 \<le> length ''twenty characters ok'' \<and>
           length ''twenty characters ok'' \<le> 500"
    by simp
  from a validateAndSanitizeTags_normalises
         [of "TagsString ''Music, music,, ROCK ,''" "[''music'', ''rock'']"]
  have 1: "validateAndSanitizeTags (TagsArray [''music'', ''rock'']) = Inr [''music'', ''rock''] \<and>
           presave_tags [''music'', ''rock''] = [''music'', ''rock'']"
    by blast
  from b c validateAndSanitizeTags_normalises
         [of "TagsArray (replicate 11 ''a'')" _ "''Maximum of 10 tags allowed''"
             "''My Clip''" "''twenty characters ok''" demo_ext
             "\<lparr>video_put = None, derive = ResizeError, thumbnail_put = None\<rparr>"
             "without_password demo_admin" "Some demo_clip" None demo_start]
  have 2: "uploadVideo demo_ext \<lparr>video_put = None, derive = ResizeError, thumbnail_put = None\<rparr>
             (Some (without_password demo_admin)) (Some ''My Clip'') (Some ''twenty characters ok'')
             (TagsArray (replicate 11 ''a'')) (Some demo_clip) None demo_start
           = (demo_start, reply 400 [(''error'', JStr ''Maximum of 10 tags allowed'')])"
    by blast
  from a b 1 2 show ?thesis by blast
qed




section \<open>Likes\<close>

lemma indexOf_mem: "indexOf xs x > - 1 \<longleftrightarrow> x \<in> set xs"
  by (induction xs) (auto simp: Let_def)

lemma indexOf_ge: "- 1 \<le> indexOf xs x"
  by (induction xs) (auto simp: Let_def)

lemma splice1_indexOf: "x \<in> set xs \<Longrightarrow> splice1 xs (indexOf xs x) = remove1 x xs"
proof (induction xs)
  case Nil
  then show ?case by simp
next
  case (Cons y ys)
  show ?case
  proof (cases "y = x")
    case True
    then show ?thesis by (simp add: splice1_def)
  next
    case False
    with Cons.prems have mem: "x \<in> set ys" by simp
    then have pos: "0 \<le> indexOf ys x" using indexOf_mem [of ys x] by simp
    then have n: "nat (indexOf ys x + 1) = Suc (nat (indexOf ys x))" by simp
    from Cons.IH [OF mem] have "take (nat (indexOf ys x)) ys @ drop (nat (indexOf ys x) + 1) ys = remove1 x ys"
      by (simp add: splice1_def)
    with False pos n show ?thesis
      by (simp add: splice1_def Let_def)
  qed
qed

lemma toggleLike_eq:
  "toggleLike u v =
     (if u \<in> set (likedBy v)
      then v\<lparr>likedBy := remove1 u (likedBy v), likes := likes v - 1\<rparr>
      else v\<lparr>likedBy := likedBy v @ [u], likes := likes v + 1\<rparr>)"
  using indexOf_mem [of "likedBy v" u]
  by (simp add: toggleLike_def Let_def splice1_indexOf)

lemma video_inv_toggleLike:
  assumes "video_inv v"
  shows "video_inv (toggleLike u v)"
proof (cases "u \<in> set (likedBy v)")
  case True
  then have "0 < length (likedBy v)" by (rule length_pos_if_in_set)
  then have "int (length (likedBy v) - 1) = int (length (likedBy v)) - 1"
    by linarith
  then have "int (length (remove1 u (likedBy v))) = int (length (likedBy v)) - 1"
    using True by (simp add: length_remove1)
  with True assms show ?thesis
    by (simp add: video_inv_def toggleLike_eq video_validate_def)
next
  case False
  with assms show ?thesis
    by (simp add: video_inv_def toggleLike_eq video_validate_def)
qed

lemma presave_tags_length: "length (presave_tags ts) \<le> length ts"
  using length_dedupe [of "map (\<lambda>tag. toLowerCase (trim tag)) ts"]
  by (simp add: presave_tags_def)

lemma presave_tags_Nil_iff: "presave_tags ts = [] \<longleftrightarrow> ts = []"
  by (simp add: presave_tags_def dedupe_Nil_iff)

lemma video_validate_presave: "video_validate v \<Longrightarrow> video_validate (presave v)"
  using presave_tags_length [of "tags v"]
  by (auto simp: video_validate_def presave_def presave_tags_Nil_iff)

lemma video_inv_presave: "video_inv v \<Longrightarrow> video_inv (presave v)"
  using video_validate_presave [of v] by (simp add: video_inv_def) (simp add: presave_def)

section \<open>What the handlers keep\<close>

lemma list_all_updateOne:
  "list_all Q xs \<Longrightarrow> (\<And>x. Q x \<Longrightarrow> P x \<Longrightarrow> Q (f x)) \<Longrightarrow> list_all Q (updateOne P f xs)"
  by (induction xs) auto

lemma list_all_deleteOne: "list_all Q xs \<Longrightarrow> list_all Q (deleteOne P xs)"
  by (induction xs) auto

lemma find_updateOne:
  "find P xs = Some x \<Longrightarrow> P (f x) \<Longrightarrow> find P (updateOne P f xs) = Some (f x)"
  by (induction xs) (auto split: if_splits)

lemma Video_findById_Some:
  "Video_findById i w = Some v \<Longrightarrow> v \<in> set (Video w) \<and> video_id v = i"
  by (auto simp: Video_findById_def find_Some_iff)

lemma Video_logger [simp]: "Video (logger m w) = Video w"
  by (simp add: logger_def)

lemma Video_uploadBufferToAzure:
  "uploadBufferToAzure X out b f n m w = (w1, r) \<Longrightarrow> Video w1 = Video w"
  by (auto simp: uploadBufferToAzure_def split: option.splits)

lemma Video_generateThumbnailFromBuffer:
  "generateThumbnailFromBuffer out b w = (w1, r) \<Longrightarrow> Video w1 = Video w"
  by (auto simp: generateThumbnailFromBuffer_def split: derived.splits)

lemma Video_handle_thumbnail:
  "handle_thumbnail X E vf tf w = (w1, r) \<Longrightarrow> Video w1 = Video w"
  by (auto simp: handle_thumbnail_def split: option.splits prod.splits sum.splits
           dest!: Video_uploadBufferToAzure Video_generateThumbnailFromBuffer)

lemma video_inv_new:
  "video_validate (new_Video i t d u th tg by st) \<Longrightarrow> video_inv (presave (new_Video i t d u th tg by st))"
  by (rule video_inv_presave) (simp add: video_inv_def, simp add: new_Video_def)

lemma world_inv_store_video:
  "world_inv w \<Longrightarrow> world_inv (fst (store_video ru t d ts vu th w))"
  by (auto simp: store_video_def Let_def world_inv_def Video_insert_def upload_failed_def
        video_inv_new split: sum.splits if_splits)

lemma world_inv_logger [simp]: "world_inv (logger m w) = world_inv w"
  by (simp add: world_inv_def)

lemma world_inv_cong: "Video w1 = Video w \<Longrightarrow> world_inv w \<Longrightarrow> world_inv w1"
  by (simp add: world_inv_def)

lemma world_inv_uploadVideo:
  assumes "world_inv w"
  shows "world_inv (fst (uploadVideo X E u t d tg vf tf w))"
proof -
  have store: "\<And>ru t d ts vu th w2. Video w2 = Video w \<Longrightarrow>
                 world_inv (fst (store_video ru t d ts vu th w2))"
    using assms by (intro world_inv_store_video) (simp add: world_inv_def)
  show ?thesis
    using assms
    by (auto simp: uploadVideo_def upload_failed_def store
          split: option.splits sum.splits prod.splits
          dest!: Video_uploadBufferToAzure Video_handle_thumbnail
          intro: world_inv_cong)
qed

lemma world_inv_getVideoById:
  "world_inv w \<Longrightarrow> world_inv (fst (getVideoById u i w))"
  by (auto simp: getVideoById_def Let_def world_inv_def video_inv_def video_validate_def
        split: option.splits id_param.splits intro!: list_all_updateOne)

lemma world_inv_likeVideo:
  assumes "world_inv w"
  shows "world_inv (fst (likeVideo u i w))"
proof -
  have "\<And>v ru. v \<in> set (Video w) \<Longrightarrow> video_inv (presave (toggleLike (req_id ru) v))"
    using assms by (auto simp: world_inv_def list_all_iff intro!: video_inv_presave video_inv_toggleLike)
  then show ?thesis
    using assms
    by (auto simp: likeVideo_def like_failed_def Video_save_def world_inv_def
          split: option.splits id_param.splits sum.splits
          dest!: Video_findById_Some intro!: list_all_updateOne)
qed

lemma delete_blobs_id: "delete_blobs v w = w"
  by (simp add: delete_blobs_def video_path_def delete_blob_of_def)

lemma world_inv_deleteVideo:
  "world_inv w \<Longrightarrow> world_inv (fst (deleteVideo u i w))"
  by (auto simp: deleteVideo_def delete_failed_def Let_def world_inv_def delete_blobs_id
        split: option.splits id_param.splits intro!: list_all_deleteOne)

lemma Video_register: "Video (fst (register X salt n e p w)) = Video w"
  by (auto simp: register_def Let_def User_save_def split: option.splits sum.splits if_splits)

lemma Video_login: "Video (fst (login X e p w)) = Video w"
  by (auto simp: login_def split: option.splits json.splits)

lemma Video_addComment: "Video (fst (addComment u i t w)) = Video w"
  by (auto simp: addComment_def Let_def split: option.splits id_param.splits)

lemma Video_deleteComment: "Video (fst (deleteComment u i w)) = Video w"
  by (auto simp: deleteComment_def split: option.splits id_param.splits)

lemma world_inv_handle: "world_inv w \<Longrightarrow> world_inv (fst (handle X r w))"
proof (cases r)
  case (Register salt n e p)
  assume "world_inv w"
  then show ?thesis using Video_register [of X salt n e p w] by (simp add: Register world_inv_def)
next
  case (Login e p)
  assume "world_inv w"
  then show ?thesis using Video_login [of X e p w] by (simp add: Login world_inv_def)
next
  case (UploadVideo E u t d tg vf tf)
  assume "world_inv w"
  then show ?thesis by (simp add: UploadVideo world_inv_uploadVideo)
next
  case (GetVideoById u i)
  assume "world_inv w"
  then show ?thesis by (simp add: GetVideoById world_inv_getVideoById)
next
  case (LikeVideo u i)
  assume "world_inv w"
  then show ?thesis by (simp add: LikeVideo world_inv_likeVideo)
next
  case (DeleteVideo u i)
  assume "world_inv w"
  then show ?thesis by (simp add: DeleteVideo world_inv_deleteVideo)
next
  case (AddComment u i t)
  assume "world_inv w"
  then show ?thesis using Video_addComment [of u i t w] by (simp add: AddComment world_inv_def)
next
  case (DeleteComment u i)
  assume "world_inv w"
  then show ?thesis using Video_deleteComment [of u i w] by (simp add: DeleteComment world_inv_def)
qed

lemma run_world_inv: "world_inv w \<Longrightarrow> world_inv (run X rs w)"
  by (induction rs arbitrary: w) (simp_all add: world_inv_handle)

lemma reached_world_inv: "reached X w0 rs w \<Longrightarrow> world_inv w"
  using run_world_inv [of w0 X rs] by (simp add: reached_def world_inv_def)

lemma toggleLike_fields [simp]:
  "video_id (toggleLike u v) = video_id v"
  by (simp add: toggleLike_eq)

lemma presave_fields [simp]:
  "video_id (presave v) = video_id v" "likes (presave v) = likes v"
  "likedBy (presave v) = likedBy v"
  by (simp_all add: presave_def)

lemma likeVideo_consumer:
  assumes inv: "world_inv w" and found: "Video_findById i w = Some v"
    and consumer: "req_role ru = Consumer"
  shows "likeVideo (Some ru) (Wellformed i) w =
           (w\<lparr>Video := updateOne (\<lambda>x. video_id x = i)
                          (\<lambda>x. presave (toggleLike (req_id ru) v)) (Video w)\<rparr>,
            reply 200 [(''message'', JStr ''Video like toggled''),
                       (''likes'', JNum (likes (toggleLike (req_id ru) v)))])"
    and "Video_findById i (fst (likeVideo (Some ru) (Wellformed i) w)) =
           Some (presave (toggleLike (req_id ru) v))"
    and "world_inv (fst (likeVideo (Some ru) (Wellformed i) w))"
proof -
  from found have mem: "v \<in> set (Video w)" and vid: "video_id v = i"
    using Video_findById_Some by blast+
  from inv mem have "video_inv v" by (simp add: world_inv_def list_all_iff)
  then have "video_inv (toggleLike (req_id ru) v)" by (rule video_inv_toggleLike)
  then have valid: "video_validate (toggleLike (req_id ru) v)" by (simp add: video_inv_def)
  show eq: "likeVideo (Some ru) (Wellformed i) w =
           (w\<lparr>Video := updateOne (\<lambda>x. video_id x = i)
                          (\<lambda>x. presave (toggleLike (req_id ru) v)) (Video w)\<rparr>,
            reply 200 [(''message'', JStr ''Video like toggled''),
                       (''likes'', JNum (likes (toggleLike (req_id ru) v)))])"
    using found consumer valid vid by (simp add: likeVideo_def Video_save_def)
  from found have "find (\<lambda>x. video_id x = i) (Video w) = Some v"
    by (simp add: Video_findById_def)
  then have "find (\<lambda>x. video_id x = i)
               (updateOne (\<lambda>x. video_id x = i) (\<lambda>x. presave (toggleLike (req_id ru) v)) (Video w))
             = Some (presave (toggleLike (req_id ru) v))"
    by (rule find_updateOne) (simp add: vid)
  then show "Video_findById i (fst (likeVideo (Some ru) (Wellformed i) w)) =
           Some (presave (toggleLike (req_id ru) v))"
    by (simp add: eq Video_findById_def)
  show "world_inv (fst (likeVideo (Some ru) (Wellformed i) w))"
    using inv by (rule world_inv_likeVideo)
qed

lemma toggleLike_twice:
  assumes "distinct (likedBy v)"
  shows "likes (toggleLike u (presave (toggleLike u v))) = likes v"
    and "u \<in> set (likedBy (toggleLike u v)) \<longleftrightarrow> u \<notin> set (likedBy v)"
    and "u \<in> set (likedBy (toggleLike u (presave (toggleLike u v)))) \<longleftrightarrow> u \<in> set (likedBy v)"
    and "set (likedBy (toggleLike u (presave (toggleLike u v)))) = set (likedBy v)"
  using assms by (auto simp: toggleLike_eq)

text \<open>
  C4. In a state reached from one without videos, for a stored video and a consumer, two
  successive calls of \<open>likeVideo\<close> by that consumer both answer 200; the second returns
  the like count the video had before the first, the first returns one more when it was a
  like (the user was not in the like-set) and one less when it was an unlike. After each
  call the user is in the stored like-set exactly when that call was a like, and after
  both the like-set has the members it had.
\<close>

theorem likeVideo_twice:
  "reached X w0 rs w \<and> Video_findById i w = Some v \<and> req_role ru = Consumer \<longrightarrow>
     (let liked = (req_id ru \<notin> set (likedBy v));
          (w1, r1) = likeVideo (Some ru) (Wellformed i) w;
          (w2, r2) = likeVideo (Some ru) (Wellformed i) w1
      in r1 = reply 200 [(''message'', JStr ''Video like toggled''),
                         (''likes'', JNum (if liked then likes v + 1 else likes v - 1))] \<and>
         r2 = reply 200 [(''message'', JStr ''Video like toggled''), (''likes'', JNum (likes v))] \<and>
         map_option (\<lambda>x. req_id ru \<in> set (likedBy x)) (Video_findById i w1) = Some liked \<and>
         map_option (\<lambda>x. req_id ru \<in> set (likedBy x)) (Video_findById i w2) = Some (\<not> liked) \<and>
         map_option likes (Video_findById i w2) = Some (likes v) \<and>
         map_option (\<lambda>x. set (likedBy x)) (Video_findById i w2) = Some (set (likedBy v)))"
proof (intro impI)
  assume a: "reached X w0 rs w \<and> Video_findById i w = Some v \<and> req_role ru = Consumer"
  let ?u = "req_id ru"
  let ?v1 = "presave (toggleLike ?u v)"
  let ?v2 = "presave (toggleLike ?u ?v1)"
  from a have "reached X w0 rs w" by simp
  then have inv: "world_inv w" by (rule reached_world_inv)
  from a have found: "Video_findById i w = Some v" and consumer: "req_role ru = Consumer"
    by simp_all
  from found have "v \<in> set (Video w)" using Video_findById_Some by blast
  with inv have d: "distinct (likedBy v)" by (simp add: world_inv_def list_all_iff video_inv_def)
  note first = likeVideo_consumer [OF inv found consumer]
  obtain w1 r1 where s1: "likeVideo (Some ru) (Wellformed i) w = (w1, r1)" by fastforce
  with first have r1: "r1 = reply 200 [(''message'', JStr ''Video like toggled''),
                                        (''likes'', JNum (likes (toggleLike ?u v)))]"
    and f1: "Video_findById i w1 = Some ?v1" and inv1: "world_inv w1"
    by simp_all
  note second = likeVideo_consumer [OF inv1 f1 consumer]
  obtain w2 r2 where s2: "likeVideo (Some ru) (Wellformed i) w1 = (w2, r2)" by fastforce
  with second have r2: "r2 = reply 200 [(''message'', JStr ''Video like toggled''),
                                         (''likes'', JNum (likes (toggleLike ?u ?v1)))]"
    and f2: "Video_findById i w2 = Some ?v2"
    by simp_all
  have l1: "likes (toggleLike ?u v) = (if ?u \<notin> set (likedBy v) then likes v + 1 else likes v - 1)"
    by (simp add: toggleLike_eq)
  show "let liked = (req_id ru \<notin> set (likedBy v));
          (w1, r1) = likeVideo (Some ru) (Wellformed i) w;
          (w2, r2) = likeVideo (Some ru) (Wellformed i) w1
      in r1 = reply 200 [(''message'', JStr ''Video like toggled''),
                         (''likes'', JNum (if liked then likes v + 1 else likes v - 1))] \<and>
         r2 = reply 200 [(''message'', JStr ''Video like toggled''), (''likes'', JNum (likes v))] \<and>
         map_option (\<lambda>x. req_id ru \<in> set (likedBy x)) (Video_findById i w1) = Some liked \<and>
         map_option (\<lambda>x. req_id ru \<in> set (likedBy x)) (Video_findById i w2) = Some (\<not> liked) \<and>
         map_option likes (Video_findById i w2) = Some (likes v) \<and>
         map_option (\<lambda>x. set (likedBy x)) (Video_findById i w2) = Some (set (likedBy v))"
    using toggleLike_twice [OF d, of ?u]
    by (simp add: s1 s2 r1 r2 f1 f2 l1)
qed

lemma demo_world_eq:
  "demo_world = \<lparr>User = [demo_admin, demo_fan], Video = [demo_video],
      Comment = [\<lparr>comment_id = 4, comment_video = 3, comment_user = 2, comment_text = ''nice''\<rparr>,
                 \<lparr>comment_id = 5, comment_video = 3, comment_user = 2, comment_text = ''again''\<rparr>],
      container = [''videos/u1-clip.mp4'', ''thumbnails/u2-clip_thumbnail.png''],
      logs = [], next_oid = 6\<rparr>"
  by code_simp

lemma demo_world_reached: "reached demo_ext demo_start demo_requests demo_world"
  by (simp add: reached_def demo_world_def demo_start_def)

lemma demo_world_found: "Video_findById 3 demo_world = Some demo_video"
  by (simp add: demo_world_eq Video_findById_def demo_video_def)

theorem likeVideo_twice_witness:
  "reached demo_ext demo_start demo_requests demo_world \<and>
   Video_findById 3 demo_world = Some demo_video \<and>
   req_role (without_password demo_fan) = Consumer \<and>
   snd (likeVideo (Some (without_password demo_fan)) (Wellformed 3) demo_world) =
     reply 200 [(''message'', JStr ''Video like toggled''), (''likes'', JNum 1)] \<and>
   snd (likeVideo (Some (without_password demo_fan)) (Wellformed 3)
          (fst (likeVideo (Some (without_password demo_fan)) (Wellformed 3) demo_world))) =
     reply 200 [(''message'', JStr ''Video like toggled''), (''likes'', JNum 0)]"
proof -
  have c: "req_role (without_password demo_fan) = Consumer"
    by (simp add: without_password_def demo_fan_def)
  have l: "likes demo_video = 0" "likedBy demo_video = []"
    by (simp_all add: demo_video_def)
  from likeVideo_twice [of demo_ext demo_start demo_requests demo_world 3 demo_video
                           "without_password demo_fan"]
       demo_world_reached demo_world_found c
  show ?thesis
    by (simp add: Let_def case_prod_beta l)
qed

lemma set_updateOne: "y \<in> set (updateOne P f xs) \<Longrightarrow> y \<in> set xs \<or> (\<exists>x \<in> set xs. P x \<and> y = f x)"
  by (induction xs) (auto split: if_splits)

lemma set_deleteOne: "y \<in> set (deleteOne P xs) \<Longrightarrow> y \<in> set xs"
  by (induction xs) (auto split: if_splits)

lemma map_updateOne_same:
  "(\<And>x. g (f x) = g x) \<Longrightarrow> map g (updateOne P f xs) = map g xs"
  by (induction xs) simp_all

lemma map_updateOne_cong:
  "(\<And>x. g (f x) = g (f' x)) \<Longrightarrow> map g (updateOne P f xs) = map g (updateOne P f' xs)"
  by (induction xs) simp_all

lemma next_oid_logger [simp]: "next_oid (logger m w) = next_oid w"
  by (simp add: logger_def)

lemma next_oid_uploadBufferToAzure:
  "uploadBufferToAzure X out b f n m w = (w1, r) \<Longrightarrow> next_oid w1 = next_oid w"
  by (auto simp: uploadBufferToAzure_def split: option.splits)

lemma next_oid_generateThumbnailFromBuffer:
  "generateThumbnailFromBuffer out b w = (w1, r) \<Longrightarrow> next_oid w1 = next_oid w"
  by (auto simp: generateThumbnailFromBuffer_def split: derived.splits)

lemma next_oid_handle_thumbnail:
  "handle_thumbnail X E vf tf w = (w1, r) \<Longrightarrow> next_oid w1 = next_oid w"
  by (auto simp: handle_thumbnail_def split: option.splits prod.splits sum.splits
           dest!: next_oid_uploadBufferToAzure next_oid_generateThumbnailFromBuffer)

lemma like_frame_same: "Video w' = Video w \<Longrightarrow> like_frame r w w'"
  by (cases r) (simp_all add: like_frame_def)

lemma like_frame_store_video:
  assumes "Video w2 = Video w" and "next_oid w2 = next_oid w"
  shows "map like_fields (Video (fst (store_video ru t d ts vu th w2))) = map like_fields (Video w) \<or>
         map like_fields (Video (fst (store_video ru t d ts vu th w2))) =
           map like_fields (Video w) @ [(next_oid w, 0, [])]"
  using assms
  by (auto simp: store_video_def Let_def Video_insert_def upload_failed_def like_fields_def
        presave_def new_Video_def split: sum.splits)

lemma like_frame_uploadVideo:
  "like_frame (UploadVideo E u t d tg vf tf) w (fst (uploadVideo X E u t d tg vf tf w))"
proof -
  define P where "P w' \<longleftrightarrow>
      map like_fields (Video w') = map like_fields (Video w) \<or>
      map like_fields (Video w') = map like_fields (Video w) @ [(next_oid w, 0, [])]"
    for w' :: world
  have same: "P w'" if "Video w' = Video w" for w'
    using that by (simp add: P_def)
  have store: "P (fst (store_video ru ti de ts vu th w2))"
    if "Video w2 = Video w \<and> next_oid w2 = next_oid w" for ru ti de ts vu th w2
    using that like_frame_store_video [of w2 w ru ti de ts vu th] by (simp add: P_def)
  have up: "Video w1 = Video w0 \<and> next_oid w1 = next_oid w0"
    if "uploadBufferToAzure X out b f n m w0 = (w1, r)" for out b f n m w0 w1 r
    using that Video_uploadBufferToAzure next_oid_uploadBufferToAzure by blast
  have ht: "Video w1 = Video w0 \<and> next_oid w1 = next_oid w0"
    if "handle_thumbnail X E vfile tfile w0 = (w1, r)" for vfile tfile w0 w1 r
    using that Video_handle_thumbnail next_oid_handle_thumbnail by blast
  have "P (fst (uploadVideo X E u t d tg vf tf w))"
    by (auto simp: uploadVideo_def upload_failed_def
          split: option.splits sum.splits prod.splits
          dest!: up ht intro!: same store)
  then show ?thesis by (simp add: like_frame_def P_def)
qed

lemma like_frame_getVideoById:
  "like_frame (GetVideoById u i) w (fst (getVideoById u i w))"
proof -
  have "map like_fields (updateOne P (\<lambda>x. x\<lparr>views := views x + 1\<rparr>) xs) = map like_fields xs"
    for P and xs :: "video list"
    by (rule map_updateOne_same) (simp add: like_fields_def)
  then show ?thesis
    by (auto simp: getVideoById_def Let_def like_frame_def split: option.splits id_param.splits)
qed

lemma like_frame_likeVideo:
  "like_frame (LikeVideo u i) w (fst (likeVideo u i w))"
proof -
  have same: "map like_fields (updateOne P (\<lambda>x. presave v) xs) = map like_fields (updateOne P (\<lambda>x. v) xs)"
    for P v and xs :: "video list"
    by (rule map_updateOne_cong) (simp add: like_fields_def presave_def)
  show ?thesis
    by (auto simp: likeVideo_def like_failed_def Video_save_def like_frame_def same
          split: option.splits id_param.splits sum.splits if_splits
          dest!: Video_findById_Some)
qed

lemma like_frame_deleteVideo:
  "like_frame (DeleteVideo u i) w (fst (deleteVideo u i w))"
  by (auto simp: deleteVideo_def delete_failed_def Let_def like_frame_def delete_blobs_id
        split: option.splits id_param.splits dest!: Video_findById_Some)

lemma like_frame_handle: "like_frame r w (fst (handle X r w))"
proof (cases r)
  case (Register salt n e p)
  then show ?thesis by (simp add: like_frame_same Video_register)
next
  case (Login e p)
  then show ?thesis by (simp add: like_frame_same Video_login)
next
  case (UploadVideo E u t d tg vf tf)
  then show ?thesis by (simp add: like_frame_uploadVideo)
next
  case (GetVideoById u i)
  then show ?thesis by (simp add: like_frame_getVideoById)
next
  case (LikeVideo u i)
  then show ?thesis by (simp add: like_frame_likeVideo)
next
  case (DeleteVideo u i)
  then show ?thesis by (simp add: like_frame_deleteVideo)
next
  case (AddComment u i t)
  then show ?thesis by (simp add: like_frame_same Video_addComment)
next
  case (DeleteComment u i)
  then show ?thesis by (simp add: like_frame_same Video_deleteComment)
qed

lemma toggleLike_count:
  assumes "likes v = int (length (likedBy v))"
  shows "likes (toggleLike u v) = int (length (likedBy (toggleLike u v)))"
proof (cases "u \<in> set (likedBy v)")
  case True
  then have "0 < length (likedBy v)" by (rule length_pos_if_in_set)
  then have "int (length (likedBy v) - 1) = int (length (likedBy v)) - 1"
    by linarith
  with True assms show ?thesis by (simp add: toggleLike_eq length_remove1)
next
  case False
  with assms show ?thesis by (simp add: toggleLike_eq)
qed

text \<open>
  C5. A new video has like counter 0 and an empty like-set; \<open>toggleLike\<close> keeps the
  counter equal to the size of the like-set; in every state reached from one without
  videos the counter of every stored video is the length of its \<open>likedBy\<close> array and
  the number of distinct users in it; and \<open>toggleLike\<close> is the only path that changes the
  like fields of a stored video: whatever the request and the state, the stored videos
  keep their ids, counters and like-sets, document by document, except that an upload may
  add one video with a fresh id, counter 0 and an empty like-set, a deletion may remove
  the video of its id, and \<open>likeVideo\<close> may replace the like fields of the video of its id
  by what \<open>toggleLike\<close> gives for the acting user.
\<close>

theorem likes_is_size_of_likedBy:
  "likes (new_Video i t d u th tg by st) = 0 \<and> likedBy (new_Video i t d u th tg by st) = [] \<and>
   (likes v = int (length (likedBy v)) \<longrightarrow>
      likes (toggleLike uid v) = int (length (likedBy (toggleLike uid v)))) \<and>
   (reached X w0 rs w \<longrightarrow>
      list_all (\<lambda>x. likes x = int (length (likedBy x)) \<and> likes x = int (card (set (likedBy x))))
        (Video w)) \<and>
   like_frame r w (fst (handle X r w))"
proof (intro conjI impI)
  show "likes (new_Video i t d u th tg by st) = 0" by (simp add: new_Video_def)
  show "likedBy (new_Video i t d u th tg by st) = []" by (simp add: new_Video_def)
  show "likes (toggleLike uid v) = int (length (likedBy (toggleLike uid v)))"
    if "likes v = int (length (likedBy v))"
    using that by (rule toggleLike_count)
  show "list_all (\<lambda>x. likes x = int (length (likedBy x)) \<and> likes x = int (card (set (likedBy x))))
        (Video w)" if "reached X w0 rs w"
  proof -
    from that have "world_inv w" by (rule reached_world_inv)
    then show ?thesis
      by (auto simp: world_inv_def list_all_iff video_inv_def distinct_card)
  qed
  show "like_frame r w (fst (handle X r w))"
    by (rule like_frame_handle)
qed

theorem likes_is_size_of_likedBy_witness:
  "reached demo_ext demo_start demo_requests demo_world \<and>
   list_all (\<lambda>x. likes x = int (length (likedBy x)) \<and> likes x = int (card (set (likedBy x))))
     (Video demo_world) \<and>
   likes demo_video = int (length (likedBy demo_video)) \<and>
   likes (toggleLike 2 demo_video) = int (length (likedBy (toggleLike 2 demo_video))) \<and>
   like_frame (LikeVideo (Some (without_password demo_fan)) (Wellformed 3)) demo_world
     (fst (handle demo_ext (LikeVideo (Some (without_password demo_fan)) (Wellformed 3)) demo_world)) \<and>
   map like_fields (Video demo_world) = [(3, 0, [])] \<and>
   map like_fields
     (Video (fst (handle demo_ext (LikeVideo (Some (without_password demo_fan)) (Wellformed 3))
                    demo_world))) = [(3, 1, [2])] \<and>
   map like_fields
     (Video (fst (handle demo_ext (GetVideoById (Some (without_password demo_fan)) (Wellformed 3))
                    demo_world))) = [(3, 0, [])]"
proof -
  have l: "likes demo_video = int (length (likedBy demo_video))"
    by (simp add: demo_video_def)
  have before: "map like_fields (Video demo_world) = [(3, 0, [])]"
    by code_simp
  have liked: "map like_fields
     (Video (fst (handle demo_ext (LikeVideo (Some (without_password demo_fan)) (Wellformed 3))
                    demo_world))) = [(3, 1, [2])]"
    by code_simp
  from likes_is_size_of_likedBy
         [of _ _ _ _ _ _ _ _ demo_video 2 demo_ext demo_start demo_requests demo_world
             "LikeVideo (Some (without_password demo_fan)) (Wellformed 3)"]
       demo_world_reached l
  have 1: "list_all (\<lambda>x. likes x = int (length (likedBy x)) \<and> likes x = int (card (set (likedBy x))))
     (Video demo_world) \<and>
   likes (toggleLike 2 demo_video) = int (length (likedBy (toggleLike 2 demo_video))) \<and>
   like_frame (LikeVideo (Some (without_password demo_fan)) (Wellformed 3)) demo_world
     (fst (handle demo_ext (LikeVideo (Some (without_password demo_fan)) (Wellformed 3)) demo_world))"
    by blast
  from likes_is_size_of_likedBy
         [of _ _ _ _ _ _ _ _ _ _ demo_ext _ _ demo_world
             "GetVideoById (Some (without_password demo_fan)) (Wellformed 3)"]
  have "like_frame (GetVideoById (Some (without_password demo_fan)) (Wellformed 3)) demo_world
     (fst (handle demo_ext (GetVideoById (Some (without_password demo_fan)) (Wellformed 3)) demo_world))"
    by blast
  with before have viewed: "map like_fields
     (Video (fst (handle demo_ext (GetVideoById (Some (without_password demo_fan)) (Wellformed 3))
                    demo_world))) = [(3, 0, [])]"
    by (simp add: like_frame_def)
  from demo_world_reached l 1 before liked viewed show ?thesis by blast
qed

section \<open>Registration and login\<close>

lemma User_findOne_None_iff: "User_findOne e w = None \<longleftrightarrow> e \<notin> email ` set (User w)"
  by (auto simp: User_findOne_def find_None_iff)

lemma register_new:
  assumes "n \<noteq> []" "e \<noteq> []" "p \<noteq> []" "e \<notin> email ` set (User w)"
    and "user_validate X \<lparr>user_id = next_oid w, name = n, email = e,
                                     password = bcrypt_hash X salt p, role = Consumer\<rparr>"
  shows "register X salt (Some n) (Some e) (Some p) w =
           (w\<lparr>User := User w @ [\<lparr>user_id = next_oid w, name = n, email = e,
                                     password = bcrypt_hash X salt p, role = Consumer\<rparr>],
               next_oid := next_oid w + 1\<rparr>,
            reply 201 [(''message'', JStr ''User registered successfully''),
                       (''user'', public_user \<lparr>user_id = next_oid w, name = n, email = e,
                                     password = bcrypt_hash X salt p, role = Consumer\<rparr>),
                       (''token'', JStr (token_for X \<lparr>user_id = next_oid w, name = n, email = e,
                                     password = bcrypt_hash X salt p, role = Consumer\<rparr>))])"
proof -
  from assms(4) have none: "User_findOne e w = None" by (simp add: User_findOne_None_iff)
  from assms(4) have fresh: "e \<notin> set (map email (User w))" by simp
  from assms(1-3) assms(5) none fresh show ?thesis
    by (simp add: register_def Let_def User_save_def del: set_map)
qed

lemma register_refused:
  assumes "n \<noteq> []" "e \<noteq> []" "p \<noteq> []" "e \<notin> email ` set (User w)"
    and "\<not> user_validate X \<lparr>user_id = next_oid w, name = n, email = e,
                                     password = bcrypt_hash X salt p, role = Consumer\<rparr>"
  shows "register X salt (Some n) (Some e) (Some p) w =
           (w, reply 500 [(''error'', JStr ''Registration failed''),
                          (''details'', JStr ''User validation failed'')])"
proof -
  from assms(4) have none: "User_findOne e w = None" by (simp add: User_findOne_None_iff)
  from assms(1-3) assms(5) none show ?thesis
    by (simp add: register_def Let_def User_save_def del: set_map)
qed

lemma register_existing:
  assumes "n \<noteq> []" "e \<noteq> []" "p \<noteq> []" "e \<in> email ` set (User w)"
  shows "register X salt (Some n) (Some e) (Some p) w = (w, user_exists)"
proof -
  from assms(4) have "User_findOne e w \<noteq> None" by (simp add: User_findOne_None_iff)
  then obtain u where "User_findOne e w = Some u" by auto
  with assms show ?thesis by (simp add: register_def)
qed

text \<open>
  C1. When name, email and password are all present and non-empty and a user with that
  email is stored, \<open>register\<close> answers with the "User already exists" response (status
  400, the response the spec calls Conflict; it differs from the one for missing fields)
  and leaves the state as it is. For any two signups with the same email and all fields
  present, whatever the state: unless the first is refused by the validators of the User
  schema (status 500, nothing stored), the second gets that response and creates no user.
\<close>

theorem register_existing_email:
  "n \<noteq> [] \<and> e \<noteq> [] \<and> p \<noteq> [] \<and> n' \<noteq> [] \<and> p' \<noteq> [] \<longrightarrow>
     (e \<in> email ` set (User w) \<longrightarrow>
        register X salt (Some n) (Some e) (Some p) w = (w, user_exists)) \<and>
     (let (w1, r1) = register X salt (Some n) (Some e) (Some p) w;
          (w2, r2) = register X salt' (Some n') (Some e) (Some p') w1
      in (res_status r1 \<noteq> 500 \<longrightarrow>
            r2 = user_exists \<and> w2 = w1 \<and>
            length (filter (\<lambda>u. email u = e) (User w2)) = length (filter (\<lambda>u. email u = e) (User w1))) \<and>
         (res_status r1 = 500 \<longrightarrow> w1 = w)) \<and>
     res_status user_exists = 400 \<and>
     json_get (res_body user_exists) ''error'' = Some (JStr ''User already exists'') \<and>
     user_exists \<noteq> missing_fields"
proof (intro impI conjI)
  assume a: "n \<noteq> [] \<and> e \<noteq> [] \<and> p \<noteq> [] \<and> n' \<noteq> [] \<and> p' \<noteq> []"
  show "register X salt (Some n) (Some e) (Some p) w = (w, user_exists)"
    if "e \<in> email ` set (User w)"
    using a that by (simp add: register_existing)
  show "let (w1, r1) = register X salt (Some n) (Some e) (Some p) w;
          (w2, r2) = register X salt' (Some n') (Some e) (Some p') w1
      in (res_status r1 \<noteq> 500 \<longrightarrow>
            r2 = user_exists \<and> w2 = w1 \<and>
            length (filter (\<lambda>u. email u = e) (User w2)) = length (filter (\<lambda>u. email u = e) (User w1))) \<and>
         (res_status r1 = 500 \<longrightarrow> w1 = w)"
  proof (cases "e \<in> email ` set (User w)")
    case True
    with a show ?thesis by (simp add: register_existing user_exists_def reply_def)
  next
    case False
    show ?thesis
    proof (cases "user_validate X \<lparr>user_id = next_oid w, name = n, email = e,
                                     password = bcrypt_hash X salt p, role = Consumer\<rparr>")
      case True
      with a False show ?thesis by (simp add: register_new register_existing reply_def)
    next
      case refused: False
      with a False show ?thesis by (simp add: register_refused reply_def)
    qed
  qed
  show "res_status user_exists = 400" by (simp add: user_exists_def reply_def)
  show "json_get (res_body user_exists) ''error'' = Some (JStr ''User already exists'')"
    by (simp add: user_exists_def reply_def json_get_def)
  show "user_exists \<noteq> missing_fields"
    by (simp add: user_exists_def missing_fields_def reply_def)
qed

theorem register_existing_email_witness:
  "register demo_ext ''$2a$'' (Some ''Fan'') (Some ''fan@example.com'') (Some ''pw'') demo_start
     = (demo_start, user_exists) \<and>
   snd (register demo_ext ''$2a$'' (Some ''Other'') (Some ''new@example.com'') (Some ''pw2'')
         (fst (register demo_ext ''$2a$'' (Some ''New'') (Some ''new@example.com'') (Some ''pw1'')
                 demo_start)))
     = user_exists \<and>
   res_status (snd (register demo_ext ''$2a$'' (Some ''New'') (Some ''new@example.com'') (Some ''pw1'')
                 demo_start)) = 201"
proof -
  have m: "''fan@example.com'' \<in> email ` set (User demo_start)"
    by (simp add: demo_start_def demo_fan_def)
  have f: "''Fan'' \<noteq> [] \<and> ''fan@example.com'' \<noteq> [] \<and> ''pw'' \<noteq> [] \<and> ''Other'' \<noteq> [] \<and> ''pw2'' \<noteq> []"
    by simp
  have g: "''New'' \<noteq> [] \<and> ''new@example.com'' \<noteq> [] \<and> ''pw1'' \<noteq> [] \<and> ''Other'' \<noteq> [] \<and> ''pw2'' \<noteq> []"
    by simp
  from m f register_existing_email
         [of "''Fan''" "''fan@example.com''" "''pw''" "''Other''" "''pw2''" demo_start demo_ext "''$2a$''" "''$2a$''"]
  have 1: "register demo_ext ''$2a$'' (Some ''Fan'') (Some ''fan@example.com'') (Some ''pw'') demo_start
     = (demo_start, user_exists)"
    by blast
  from g register_existing_email
         [of "''New''" "''new@example.com''" "''pw1''" "''Other''" "''pw2''" demo_start demo_ext "''$2a$''" "''$2a$''"]
  have 4: "(res_status (snd (register demo_ext ''$2a$'' (Some ''New'') (Some ''new@example.com'') (Some ''pw1'')
                 demo_start)) \<noteq> 500 \<longrightarrow>
           snd (register demo_ext ''$2a$'' (Some ''Other'') (Some ''new@example.com'') (Some ''pw2'')
         (fst (register demo_ext ''$2a$'' (Some ''New'') (Some ''new@example.com'') (Some ''pw1'')
                 demo_start))) = user_exists)"
    by (simp add: Let_def case_prod_beta)
  have 3: "res_status (snd (register demo_ext ''$2a$'' (Some ''New'') (Some ''new@example.com'') (Some ''pw1'')
                 demo_start)) = 201"
    by code_simp
  from 3 4 have 2: "snd (register demo_ext ''$2a$'' (Some ''Other'') (Some ''new@example.com'') (Some ''pw2'')
         (fst (register demo_ext ''$2a$'' (Some ''New'') (Some ''new@example.com'') (Some ''pw1'')
                 demo_start))) = user_exists"
    by simp
  from 1 2 3 show ?thesis by blast
qed

lemma login_string_failures_alike:
  assumes "e1 \<noteq> []" "p1 \<noteq> []" "e2 \<noteq> []" "p2 \<noteq> []"
    and "User_findOne e1 w = None" "User_findOne e2 w = Some u"
    and "\<not> bcrypt_compare X p2 (password u)"
  shows "login X (Some e1) (Some (JStr p1)) w = (w, authentication_failed)"
    and "login X (Some e2) (Some (JStr p2)) w = (w, authentication_failed)"
  using assms by (simp_all add: login_def falsy_def)

lemma login_not_a_string:
  assumes "e \<noteq> []" "\<not> falsy p" "\<forall>s. p \<noteq> JStr s"
  shows "User_findOne e w = None \<Longrightarrow> login X (Some e) (Some p) w = (w, authentication_failed)"
    and "User_findOne e w = Some u \<Longrightarrow>
           login X (Some e) (Some p) w =
             (w, login_failed (''Illegal arguments: '' @ typeof p @ '', string''))"
  using assms by (cases p; simp add: login_def)+

text \<open>
  C9 fails on the code. \<open>login\<close> gives its two failures the same body only when the
  password is a string. It does not check the type of the password, and a password that
  is truthy and not a string (the number 1 in \<open>{"email": ..., "password": 1}\<close>) is handed
  to \<open>bcrypt.compare\<close> when the email is stored, which rejects it: the \<open>catch\<close> answers 500
  "Login failed". With an email that no user has, the same password is answered 401
  "Authentication failed", because the lookup fails first. The two answers differ, so
  they tell whether the email is stored.
\<close>

theorem login_reveals_stored_email:
  "User_findOne ''nobody@example.com'' demo_start = None \<and>
   User_findOne ''fan@example.com'' demo_start = Some demo_fan \<and>
   login demo_ext (Some ''nobody@example.com'') (Some (JNum 1)) demo_start =
     (demo_start, reply 401 [(''error'', JStr ''Authentication failed''),
                             (''details'', JStr ''Invalid email or password'')]) \<and>
   login demo_ext (Some ''fan@example.com'') (Some (JNum 1)) demo_start =
     (demo_start, reply 500 [(''error'', JStr ''Login failed''),
                             (''details'', JStr ''Illegal arguments: number, string'')]) \<and>
   login demo_ext (Some ''nobody@example.com'') (Some (JNum 1)) demo_start \<noteq>
   login demo_ext (Some ''fan@example.com'') (Some (JNum 1)) demo_start \<and>
   login demo_ext (Some ''nobody@example.com'') (Some (JStr ''wrong'')) demo_start =
   login demo_ext (Some ''fan@example.com'') (Some (JStr ''wrong'')) demo_start"
proof -
  have a: "User_findOne ''nobody@example.com'' demo_start = None"
    by (simp add: User_findOne_def demo_start_def demo_admin_def demo_fan_def)
  have b: "User_findOne ''fan@example.com'' demo_start = Some demo_fan"
    by (simp add: User_findOne_def demo_start_def demo_admin_def demo_fan_def)
  have c: "login demo_ext (Some ''nobody@example.com'') (Some (JNum 1)) demo_start =
     (demo_start, reply 401 [(''error'', JStr ''Authentication failed''),
                             (''details'', JStr ''Invalid email or password'')])"
    using a by (simp add: login_def falsy_def authentication_failed_def)
  have d: "login demo_ext (Some ''fan@example.com'') (Some (JNum 1)) demo_start =
     (demo_start, reply 500 [(''error'', JStr ''Login failed''),
                             (''details'', JStr ''Illegal arguments: number, string'')])"
    using b by (simp add: login_def falsy_def login_failed_def typeof_def)
  have e: "login demo_ext (Some ''nobody@example.com'') (Some (JNum 1)) demo_start \<noteq>
           login demo_ext (Some ''fan@example.com'') (Some (JNum 1)) demo_start"
    by (simp add: c d reply_def)
  have w: "\<not> bcrypt_compare demo_ext ''wrong'' (password demo_fan)"
    by (simp add: demo_ext_def demo_fan_def)
  have f: "login demo_ext (Some ''nobody@example.com'') (Some (JStr ''wrong'')) demo_start =
           login demo_ext (Some ''fan@example.com'') (Some (JStr ''wrong'')) demo_start"
    using a b w by (simp add: login_def falsy_def)
  from a b c d e f show ?thesis by blast
qed

section \<open>Reading a video\<close>

lemma json_get_JObj: "json_get (JObj kvs) k = map_of kvs k"
  by (simp add: json_get_def)

lemma json_at_video_views [simp]: "json_get (video_json w v) ''views'' = Some (JNum (views v))"
  by (simp add: video_json_def json_get_def)

lemma getVideoById_approved:
  assumes found: "Video_findById i w = Some v" and approved: "status v = Approved"
  shows "getVideoById (Some ru) (Wellformed i) w =
           (w\<lparr>Video := updateOne (\<lambda>x. video_id x = i) (\<lambda>x. x\<lparr>views := views x + 1\<rparr>) (Video w)\<rparr>,
            reply 200 [(''video'', video_json w v),
                       (''comments'', JArr (map (comment_json (w\<lparr>Video := updateOne (\<lambda>x. video_id x = i) (\<lambda>x. x\<lparr>views := views x + 1\<rparr>) (Video w)\<rparr>))
                          (Comment_find i (w\<lparr>Video := updateOne (\<lambda>x. video_id x = i) (\<lambda>x. x\<lparr>views := views x + 1\<rparr>) (Video w)\<rparr>))))])"
    and "Video_findById i (fst (getVideoById (Some ru) (Wellformed i) w)) = Some (v\<lparr>views := views v + 1\<rparr>)"
proof -
  show eq: "getVideoById (Some ru) (Wellformed i) w =
           (w\<lparr>Video := updateOne (\<lambda>x. video_id x = i) (\<lambda>x. x\<lparr>views := views x + 1\<rparr>) (Video w)\<rparr>,
            reply 200 [(''video'', video_json w v),
                       (''comments'', JArr (map (comment_json (w\<lparr>Video := updateOne (\<lambda>x. video_id x = i) (\<lambda>x. x\<lparr>views := views x + 1\<rparr>) (Video w)\<rparr>))
                          (Comment_find i (w\<lparr>Video := updateOne (\<lambda>x. video_id x = i) (\<lambda>x. x\<lparr>views := views x + 1\<rparr>) (Video w)\<rparr>))))])"
    using assms by (simp add: getVideoById_def Let_def)
  from found have vid: "video_id v = i" using Video_findById_Some by blast
  from found have "find (\<lambda>x. video_id x = i) (Video w) = Some v"
    by (simp add: Video_findById_def)
  then have "find (\<lambda>x. video_id x = i)
               (updateOne (\<lambda>x. video_id x = i) (\<lambda>x. x\<lparr>views := views x + 1\<rparr>) (Video w))
             = Some (v\<lparr>views := views v + 1\<rparr>)"
    by (rule find_updateOne) (simp add: vid)
  then show "Video_findById i (fst (getVideoById (Some ru) (Wellformed i) w)) = Some (v\<lparr>views := views v + 1\<rparr>)"
    by (simp add: eq Video_findById_def)
qed

text \<open>
  C7. For a stored approved video and any acting user, two successive calls of
  \<open>getVideoById\<close> both answer 200; the video of the first response has the view count
  \<open>n\<close> that was stored, the video of the second has \<open>n + 1\<close>, and each call adds
  exactly 1 to the stored counter.
\<close>

theorem getVideoById_counts_views:
  "Video_findById i w = Some v \<and> status v = Approved \<longrightarrow>
     (let (w1, r1) = getVideoById (Some ru) (Wellformed i) w;
          (w2, r2) = getVideoById (Some ru) (Wellformed i) w1
      in res_status r1 = 200 \<and> res_status r2 = 200 \<and>
         json_at (res_body r1) ''video'' ''views'' = Some (JNum (views v)) \<and>
         json_at (res_body r2) ''video'' ''views'' = Some (JNum (views v + 1)) \<and>
         map_option views (Video_findById i w1) = Some (views v + 1) \<and>
         map_option views (Video_findById i w2) = Some (views v + 2))"
proof (intro impI)
  assume a: "Video_findById i w = Some v \<and> status v = Approved"
  then have found: "Video_findById i w = Some v" and approved: "status v = Approved" by simp_all
  let ?v1 = "v\<lparr>views := views v + 1\<rparr>"
  note first = getVideoById_approved [OF found approved, of ru]
  obtain w1 r1 where s1: "getVideoById (Some ru) (Wellformed i) w = (w1, r1)" by fastforce
  with first have r1: "res_status r1 = 200" "json_at (res_body r1) ''video'' ''views'' = Some (JNum (views v))"
    and f1: "Video_findById i w1 = Some ?v1"
    by (auto simp: reply_def json_at_def json_get_JObj)
  have approved1: "status ?v1 = Approved" using approved by simp
  note second = getVideoById_approved [OF f1 approved1, of ru]
  obtain w2 r2 where s2: "getVideoById (Some ru) (Wellformed i) w1 = (w2, r2)" by fastforce
  with second have r2: "res_status r2 = 200" "json_at (res_body r2) ''video'' ''views'' = Some (JNum (views v + 1))"
    and f2: "Video_findById i w2 = Some (?v1\<lparr>views := views ?v1 + 1\<rparr>)"
    by (auto simp: reply_def json_at_def json_get_JObj)
  show "let (w1, r1) = getVideoById (Some ru) (Wellformed i) w;
          (w2, r2) = getVideoById (Some ru) (Wellformed i) w1
      in res_status r1 = 200 \<and> res_status r2 = 200 \<and>
         json_at (res_body r1) ''video'' ''views'' = Some (JNum (views v)) \<and>
         json_at (res_body r2) ''video'' ''views'' = Some (JNum (views v + 1)) \<and>
         map_option views (Video_findById i w1) = Some (views v + 1) \<and>
         map_option views (Video_findById i w2) = Some (views v + 2)"
    by (simp add: s1 s2 r1 r2 f1 f2)
qed

theorem getVideoById_counts_views_witness:
  "Video_findById 3 demo_world = Some demo_video \<and> status demo_video = Approved \<and>
   json_at (res_body (snd (getVideoById (Some (without_password demo_fan)) (Wellformed 3) demo_world)))
     ''video'' ''views'' = Some (JNum 0) \<and>
   json_at (res_body (snd (getVideoById (Some (without_password demo_fan)) (Wellformed 3)
       (fst (getVideoById (Some (without_password demo_fan)) (Wellformed 3) demo_world)))))
     ''video'' ''views'' = Some (JNum 1)"
proof -
  have s: "status demo_video = Approved" "views demo_video = 0" by (simp_all add: demo_video_def)
  from getVideoById_counts_views [of 3 demo_world demo_video "without_password demo_fan"]
       demo_world_found s
  show ?thesis by (simp add: Let_def case_prod_beta)
qed





section \<open>Uploading a video\<close>

lemma length_trim: "length (trim s) \<le> length s"
proof -
  have "length (dropWhile is_space (rev (dropWhile is_space s))) \<le> length (rev (dropWhile is_space s))"
    by (rule length_dropWhile_le)
  also have "\<dots> \<le> length s" by (simp add: length_dropWhile_le)
  finally show ?thesis by (simp add: trim_def)
qed

lemma handle_thumbnail_derivation_fails:
  assumes "derivation_fails E"
  shows "snd (handle_thumbnail X E vf None w) = Inr None"
    and "Video (fst (handle_thumbnail X E vf None w)) = Video w"
    and "next_oid (fst (handle_thumbnail X E vf None w)) = next_oid w"
    and "container (fst (handle_thumbnail X E vf None w)) = container w"
  using assms
  by (auto simp: derivation_fails_def handle_thumbnail_def generateThumbnailFromBuffer_def
        uploadBufferToAzure_def logger_def split: derived.splits)

lemma store_video_valid:
  assumes "3 \<le> length (trim t)" "length t \<le> 100" "10 \<le> length (trim d)" "length d \<le> 500"
    and "vu \<noteq> []" "1 \<le> length ts" "length ts \<le> 10"
  shows "store_video ru t d ts vu th w =
     (w\<lparr>Video := Video w @ [presave (new_Video (next_oid w) t d vu th ts (req_id ru)
                                 (if req_role ru = Admin then Approved else Pending))],
         next_oid := next_oid w + 1\<rparr>,
      reply 201 [(''message'', JStr ''Video uploaded successfully''),
                 (''video'', JObj [(''id'', JNum (int (next_oid w))),
                                   (''title'', JStr (trim t)),
                                   (''url'', JStr vu),
                                   (''thumbnail'', opt_str th),
                                   (''tags'', JArr (map JStr (presave_tags ts))),
                                   (''status'', JStr (status_str (if req_role ru = Admin then Approved else Pending)))])])"
proof -
  let ?v = "new_Video (next_oid w) t d vu th ts (req_id ru) (if req_role ru = Admin then Approved else Pending)"
  from length_trim [of t] length_trim [of d] assms have "video_validate ?v"
    by (auto simp: video_validate_def new_Video_def)
  then show ?thesis
    by (simp add: store_video_def Let_def Video_insert_def) (simp add: presave_def new_Video_def)
qed

text \<open>
  C6. An upload by an admin that supplies no thumbnail file and is otherwise valid (title
  of 3 to 100 and description of 10 to 500 characters, both still long enough for the
  schema once trimmed; accepted tags; a video file whose blob upload succeeds) and whose
  thumbnail derivation fails (ffmpeg or sharp reports an error, or the upload of the
  derived image is refused) is answered with 201: the response carries a null thumbnail
  and the status approved, and exactly one video is stored, with no thumbnail and the
  status approved.
\<close>

theorem uploadVideo_without_thumbnail:
  "req_role ru = Admin \<and> 3 \<le> length t \<and> length t \<le> 100 \<and> 3 \<le> length (trim t) \<and>
   10 \<le> length d \<and> length d \<le> 500 \<and> 10 \<le> length (trim d) \<and>
   validateAndSanitizeTags tg = Inr ts \<and> video_put E = Some uuid \<and> derivation_fails E \<longrightarrow>
     (let (w', r) = uploadVideo X E (Some ru) (Some t) (Some d) tg (Some vf) None w
      in res_status r = 201 \<and>
         json_at (res_body r) ''video'' ''thumbnail'' = Some JNull \<and>
         json_at (res_body r) ''video'' ''status'' = Some (JStr ''approved'') \<and>
         Video w' = Video w @
           [presave (new_Video (next_oid w) t d
                       (container_url X @ ''/'' @ blob_name ''videos'' uuid (originalname vf))
                       None ts (req_id ru) Approved)] \<and>
         map thumbnail (Video w') = map thumbnail (Video w) @ [None] \<and>
         map status (Video w') = map status (Video w) @ [Approved])"
proof (intro impI)
  assume a: "req_role ru = Admin \<and> 3 \<le> length t \<and> length t \<le> 100 \<and> 3 \<le> length (trim t) \<and>
   10 \<le> length d \<and> length d \<le> 500 \<and> 10 \<le> length (trim d) \<and>
   validateAndSanitizeTags tg = Inr ts \<and> video_put E = Some uuid \<and> derivation_fails E"
  define link where "link = container_url X @ ''/'' @ blob_name ''videos'' uuid (originalname vf)"
  let ?w1 = "w\<lparr>container := container w @ [blob_name ''videos'' uuid (originalname vf)]\<rparr>"
  from a have tags: "validateAndSanitizeTags tg = Inr ts" by simp
  note v = validated_tags [OF tags]
  from a have fails: "derivation_fails E" by simp
  note h = handle_thumbnail_derivation_fails [OF fails, of X vf ?w1]
  obtain w2 where ht: "handle_thumbnail X E vf None ?w1 = (w2, Inr None)"
    using h(1) by (cases "handle_thumbnail X E vf None ?w1") simp
  from h(2) h(3) ht have w2: "Video w2 = Video w" "next_oid w2 = next_oid w" by simp_all
  have up: "uploadBufferToAzure X (Some uuid) (buffer vf) ''videos'' (originalname vf) (mimetype vf) w
            = (?w1, Inr link)"
    by (simp add: uploadBufferToAzure_def link_def)
  have run: "uploadVideo X E (Some ru) (Some t) (Some d) tg (Some vf) None w =
             store_video ru t d ts link None w2"
    using a by (auto simp: uploadVideo_def up ht)
  have nonempty: "link \<noteq> []" by (simp add: link_def)
  have st: "store_video ru t d ts link None w2 =
     (w2\<lparr>Video := Video w2 @ [presave (new_Video (next_oid w2) t d link None ts (req_id ru)
                                 (if req_role ru = Admin then Approved else Pending))],
         next_oid := next_oid w2 + 1\<rparr>,
      reply 201 [(''message'', JStr ''Video uploaded successfully''),
                 (''video'', JObj [(''id'', JNum (int (next_oid w2))),
                                   (''title'', JStr (trim t)),
                                   (''url'', JStr link),
                                   (''thumbnail'', opt_str None),
                                   (''tags'', JArr (map JStr (presave_tags ts))),
                                   (''status'', JStr (status_str (if req_role ru = Admin then Approved else Pending)))])])"
    using a v(2) v(3) nonempty by (intro store_video_valid) simp_all
  have "let (w', r) = uploadVideo X E (Some ru) (Some t) (Some d) tg (Some vf) None w
      in res_status r = 201 \<and>
         json_at (res_body r) ''video'' ''thumbnail'' = Some JNull \<and>
         json_at (res_body r) ''video'' ''status'' = Some (JStr ''approved'') \<and>
         Video w' = Video w @
           [presave (new_Video (next_oid w) t d link None ts (req_id ru) Approved)] \<and>
         map thumbnail (Video w') = map thumbnail (Video w) @ [None] \<and>
         map status (Video w') = map status (Video w) @ [Approved]"
    using a w2
    by (simp add: run st reply_def json_at_def json_get_JObj opt_str_def status_str_def)
       (simp add: presave_def new_Video_def)
  then show "let (w', r) = uploadVideo X E (Some ru) (Some t) (Some d) tg (Some vf) None w
      in res_status r = 201 \<and>
         json_at (res_body r) ''video'' ''thumbnail'' = Some JNull \<and>
         json_at (res_body r) ''video'' ''status'' = Some (JStr ''approved'') \<and>
         Video w' = Video w @
           [presave (new_Video (next_oid w) t d
                       (container_url X @ ''/'' @ blob_name ''videos'' uuid (originalname vf))
                       None ts (req_id ru) Approved)] \<and>
         map thumbnail (Video w') = map thumbnail (Video w) @ [None] \<and>
         map status (Video w') = map status (Video w) @ [Approved]"
    unfolding link_def .
qed

theorem uploadVideo_without_thumbnail_witness:
  "derivation_fails \<lparr>video_put = Some ''u1'', derive = StreamError, thumbnail_put = Some ''u2''\<rparr> \<and>
   res_status (snd (uploadVideo demo_ext
      \<lparr>video_put = Some ''u1'', derive = StreamError, thumbnail_put = Some ''u2''\<rparr>
      (Some (without_password demo_admin)) (Some ''My Clip'') (Some ''twenty characters ok'')
      (TagsString ''music,live'') (Some demo_clip) None demo_start)) = 201 \<and>
   json_at (res_body (snd (uploadVideo demo_ext
      \<lparr>video_put = Some ''u1'', derive = StreamError, thumbnail_put = Some ''u2''\<rparr>
      (Some (without_password demo_admin)) (Some ''My Clip'') (Some ''twenty characters ok'')
      (TagsString ''music,live'') (Some demo_clip) None demo_start))) ''video'' ''thumbnail'' = Some JNull \<and>
   map thumbnail (Video (fst (uploadVideo demo_ext
      \<lparr>video_put = Some ''u1'', derive = StreamError, thumbnail_put = Some ''u2''\<rparr>
      (Some (without_password demo_admin)) (Some ''My Clip'') (Some ''twenty characters ok'')
      (TagsString ''music,live'') (Some demo_clip) None demo_start))) = [None]"
proof -
  let ?E = "\<lparr>video_put = Some ''u1'', derive = StreamError, thumbnail_put = Some ''u2''\<rparr>"
  have f: "derivation_fails ?E" by (simp add: derivation_fails_def)
  have r: "req_role (without_password demo_admin) = Admin"
    by (simp add: without_password_def demo_admin_def)
  have l: "3 \<le> length ''My Clip'' \<and> length ''My Clip'' \<le> 100 \<and>
           10 \<le> length ''twenty characters ok'' \<and> length ''twenty characters ok'' \<le> 500"
    by simp
  have tr: "3 \<le> length (trim ''My Clip'') \<and> 10 \<le> length (trim ''twenty characters ok'')"
    by code_simp
  have tg: "validateAndSanitizeTags (TagsString ''music,live'') = Inr [''music'', ''live'']"
    by code_simp
  have p: "video_put ?E = Some ''u1''" by simp
  have v: "Video demo_start = []" by (simp add: demo_start_def)
  from uploadVideo_without_thumbnail
         [of "without_password demo_admin" "''My Clip''" "''twenty characters ok''"
             "TagsString ''music,live''" "[''music'', ''live'']" ?E "''u1''" demo_ext demo_clip demo_start]
       f r l tr tg p
  show ?thesis by (simp add: Let_def case_prod_beta v presave_def new_Video_def)
qed

lemma handle_thumbnail_supplied_fails:
  "thumbnail_put E = None \<Longrightarrow>
     handle_thumbnail X E vf (Some tf) w = (logger ''Azure upload error'' w, Inl ''Azure upload failed'')"
  by (simp add: handle_thumbnail_def uploadBufferToAzure_def)

lemma uploadVideo_supplied_thumbnail_fails:
  assumes "thumbnail_put E = None"
  shows "Video (fst (uploadVideo X E u bt bd btg bvf (Some tf) w)) = Video w"
    and "res_status (snd (uploadVideo X E u bt bd btg bvf (Some tf) w)) \<noteq> 201"
  using assms
  by (auto simp: uploadVideo_def upload_failed_def reply_def handle_thumbnail_supplied_fails
        split: option.splits sum.splits prod.splits
        dest!: Video_uploadBufferToAzure)

text \<open>
  C10. When a thumbnail file is supplied and its blob upload is refused, an otherwise
  valid upload by an admin is answered with 500 "Video upload failed", stores no video,
  and leaves the blob of the video, which was uploaded before, in the container. For every
  request with a supplied thumbnail whose upload is refused, no video is stored and the
  answer is not 201.
\<close>

theorem uploadVideo_supplied_thumbnail_fatal:
  "(req_role ru = Admin \<and> 3 \<le> length t \<and> length t \<le> 100 \<and> 10 \<le> length d \<and> length d \<le> 500 \<and>
    validateAndSanitizeTags tg = Inr ts \<and> video_put E = Some uuid \<and> thumbnail_put E = None \<longrightarrow>
      (let (w', r) = uploadVideo X E (Some ru) (Some t) (Some d) tg (Some vf) (Some tf) w
       in r = reply 500 [(''error'', JStr ''Video upload failed''), (''details'', JStr ''Azure upload failed'')] \<and>
          Video w' = Video w \<and>
          container w' = container w @ [blob_name ''videos'' uuid (originalname vf)])) \<and>
   (thumbnail_put E = None \<longrightarrow>
      Video (fst (uploadVideo X E u bt bd btg bvf (Some tf) w)) = Video w \<and>
      res_status (snd (uploadVideo X E u bt bd btg bvf (Some tf) w)) \<noteq> 201)"
proof (intro conjI impI)
  assume a: "req_role ru = Admin \<and> 3 \<le> length t \<and> length t \<le> 100 \<and> 10 \<le> length d \<and> length d \<le> 500 \<and>
    validateAndSanitizeTags tg = Inr ts \<and> video_put E = Some uuid \<and> thumbnail_put E = None"
  then have none: "thumbnail_put E = None" by simp
  have up: "uploadBufferToAzure X (Some uuid) (buffer vf) ''videos'' (originalname vf) (mimetype vf) w
            = (w\<lparr>container := container w @ [blob_name ''videos'' uuid (originalname vf)]\<rparr>,
               Inr (container_url X @ ''/'' @ blob_name ''videos'' uuid (originalname vf)))"
    by (simp add: uploadBufferToAzure_def)
  show "let (w', r) = uploadVideo X E (Some ru) (Some t) (Some d) tg (Some vf) (Some tf) w
       in r = reply 500 [(''error'', JStr ''Video upload failed''), (''details'', JStr ''Azure upload failed'')] \<and>
          Video w' = Video w \<and>
          container w' = container w @ [blob_name ''videos'' uuid (originalname vf)]"
    using a
    by (auto simp: uploadVideo_def up handle_thumbnail_supplied_fails [OF none] upload_failed_def logger_def)
next
  assume "thumbnail_put E = None"
  then show "Video (fst (uploadVideo X E u bt bd btg bvf (Some tf) w)) = Video w"
    by (rule uploadVideo_supplied_thumbnail_fails(1))
next
  assume "thumbnail_put E = None"
  then show "res_status (snd (uploadVideo X E u bt bd btg bvf (Some tf) w)) \<noteq> 201"
    by (rule uploadVideo_supplied_thumbnail_fails(2))
qed

theorem uploadVideo_supplied_thumbnail_fatal_witness:
  "res_status (snd (uploadVideo demo_ext
      \<lparr>video_put = Some ''u1'', derive = Frame ''png'', thumbnail_put = None\<rparr>
      (Some (without_password demo_admin)) (Some ''My Clip'') (Some ''twenty characters ok'')
      (TagsString ''music,live'') (Some demo_clip)
      (Some \<lparr>originalname = ''cover.png'', mimetype = ''image/png'', buffer = ''img''\<rparr>) demo_start)) = 500 \<and>
   Video (fst (uploadVideo demo_ext
      \<lparr>video_put = Some ''u1'', derive = Frame ''png'', thumbnail_put = None\<rparr>
      (Some (without_password demo_admin)) (Some ''My Clip'') (Some ''twenty characters ok'')
      (TagsString ''music,live'') (Some demo_clip)
      (Some \<lparr>originalname = ''cover.png'', mimetype = ''image/png'', buffer = ''img''\<rparr>) demo_start)) = [] \<and>
   container (fst (uploadVideo demo_ext
      \<lparr>video_put = Some ''u1'', derive = Frame ''png'', thumbnail_put = None\<rparr>
      (Some (without_password demo_admin)) (Some ''My Clip'') (Some ''twenty characters ok'')
      (TagsString ''music,live'') (Some demo_clip)
      (Some \<lparr>originalname = ''cover.png'', mimetype = ''image/png'', buffer = ''img''\<rparr>) demo_start))
     = [''videos/u1-clip.mp4'']"
proof -
  let ?E = "\<lparr>video_put = Some ''u1'', derive = Frame ''png'', thumbnail_put = None\<rparr>"
  let ?tf = "\<lparr>originalname = ''cover.png'', mimetype = ''image/png'', buffer = ''img''\<rparr>"
  have r: "req_role (without_password demo_admin) = Admin"
    by (simp add: without_password_def demo_admin_def)
  have l: "3 \<le> length ''My Clip'' \<and> length ''My Clip'' \<le> 100 \<and>
           10 \<le> length ''twenty characters ok'' \<and> length ''twenty characters ok'' \<le> 500"
    by simp
  have tg: "validateAndSanitizeTags (TagsString ''music,live'') = Inr [''music'', ''live'']"
    by code_simp
  have p: "video_put ?E = Some ''u1''" "thumbnail_put ?E = None" by simp_all
  have v: "Video demo_start = []" "container demo_start = []" by (simp_all add: demo_start_def)
  have b: "blob_name ''videos'' ''u1'' (originalname demo_clip) = ''videos/u1-clip.mp4''"
    by (simp add: blob_name_def demo_clip_def)
  from uploadVideo_supplied_thumbnail_fatal
         [of "without_password demo_admin" "''My Clip''" "''twenty characters ok''"
             "TagsString ''music,live''" "[''music'', ''live'']" ?E "''u1''" demo_ext demo_clip ?tf demo_start]
       r l tg p
  show ?thesis by (simp add: Let_def case_prod_beta v b reply_def)
qed

section \<open>Deleting a video\<close>

text \<open>
  C2 fails on the code. \<open>deleteVideo\<close> reads the properties \<open>videoUrl\<close> and
  \<open>thumbnailUrl\<close>, which the schema does not have (its paths are \<open>url\<close> and
  \<open>thumbnail\<close>), so for every video the blob step does nothing. In the example an admin
  deletes the uploaded video: the answer is 200, the video and its two comments are gone,
  and both blobs are still in the container, with nothing logged.
\<close>

theorem deleteVideo_keeps_blobs:
  "delete_blobs v w = w \<and>
   Video_findById 3 demo_world = Some demo_video \<and>
   url demo_video = ''https://store.example/media/videos/u1-clip.mp4'' \<and>
   container demo_world = [''videos/u1-clip.mp4'', ''thumbnails/u2-clip_thumbnail.png''] \<and>
   deleteVideo (Some (without_password demo_admin)) (Wellformed 3) demo_world =
     (demo_world\<lparr>Video := [], Comment := []\<rparr>,
      reply 200 [(''message'', JStr ''Video and associated comments deleted successfully'')]) \<and>
   container (fst (deleteVideo (Some (without_password demo_admin)) (Wellformed 3) demo_world)) =
     [''videos/u1-clip.mp4'', ''thumbnails/u2-clip_thumbnail.png''] \<and>
   logs (fst (deleteVideo (Some (without_password demo_admin)) (Wellformed 3) demo_world)) = []"
proof (intro conjI)
  show "delete_blobs v w = w"
    by (simp add: delete_blobs_def video_path_def delete_blob_of_def)
  show "Video_findById 3 demo_world = Some demo_video" by code_simp
  show "url demo_video = ''https://store.example/media/videos/u1-clip.mp4''"
    by (simp add: demo_video_def)
  show "container demo_world = [''videos/u1-clip.mp4'', ''thumbnails/u2-clip_thumbnail.png'']"
    by code_simp
  show "deleteVideo (Some (without_password demo_admin)) (Wellformed 3) demo_world =
     (demo_world\<lparr>Video := [], Comment := []\<rparr>,
      reply 200 [(''message'', JStr ''Video and associated comments deleted successfully'')])"
    by code_simp
  show "container (fst (deleteVideo (Some (without_password demo_admin)) (Wellformed 3) demo_world)) =
     [''videos/u1-clip.mp4'', ''thumbnails/u2-clip_thumbnail.png'']"
    by code_simp
  show "logs (fst (deleteVideo (Some (without_password demo_admin)) (Wellformed 3) demo_world)) = []"
    by code_simp
qed

section \<open>Authentication\<close>

text \<open>
  C3 fails on the code. A verified token whose subject matches no stored user makes
  \<open>authenticate\<close> call \<open>next()\<close> with \<open>req.user = null\<close>; nothing answers 401. What
  follows reads a property of \<open>null\<close>: \<open>authorizeRoles\<close> ends in the global error
  handler with 500, and the handlers, which run, answer 500 from their own \<open>catch\<close>.
\<close>

theorem authenticate_passes_unresolved_user:
  "jwt_verify demo_ext ''token-gone'' =
     Some \<lparr>claim_id = 7, claim_name = ''Gone'', claim_email = ''gone@example.com'', claim_role = Consumer\<rparr> \<and>
   User_findById 7 demo_world = None \<and>
   authenticate demo_ext (Some ''Bearer token-gone'') demo_world = Next None \<and>
   authorizeRoles [Admin] None = Rejected internal_server_error \<and>
   res_status internal_server_error = 500 \<and>
   res_status (snd (getVideoById None (Wellformed 3) demo_world)) = 500 \<and>
   res_status (snd (addComment None (Wellformed 3) ''hello'' demo_world)) = 500"
proof (intro conjI)
  show verified: "jwt_verify demo_ext ''token-gone'' =
     Some \<lparr>claim_id = 7, claim_name = ''Gone'', claim_email = ''gone@example.com'', claim_role = Consumer\<rparr>"
    by (simp add: demo_ext_def)
  show gone: "User_findById 7 demo_world = None"
    by (simp add: demo_world_eq User_findById_def demo_admin_def demo_fan_def)
  have "bearer_token (Some ''Bearer token-gone'') = Some ''token-gone''"
    by (simp add: bearer_token_def)
  with verified gone show "authenticate demo_ext (Some ''Bearer token-gone'') demo_world = Next None"
    by (simp add: authenticate_def)
  show "authorizeRoles [Admin] None = Rejected internal_server_error"
    by (simp add: authorizeRoles_def)
  show "res_status internal_server_error = 500"
    by (simp add: internal_server_error_def reply_def)
  show "res_status (snd (getVideoById None (Wellformed 3) demo_world)) = 500"
    using demo_world_found by (simp add: getVideoById_def reply_def)
  show "res_status (snd (addComment None (Wellformed 3) ''hello'' demo_world)) = 500"
    using demo_world_found by (simp add: addComment_def reply_def)
qed



end
